theory Spec2Isabelle
  imports Complex_Main "HOL-Library.Sublist"
begin

section \<open>Codex pricing resolution (apps/codex/src/pricing.ts)\<close>

text \<open>
  The resolver \<open>CodexPricingSource.getPricing\<close> turns a bare model name into a
  per-million-token price record. It asks a catalog accessor (the class
  \<open>LiteLLMPricingFetcher\<close>) for the whole catalog or for one model, and walks a short
  decision tree: strict lookup of the name, strict and relaxed lookup of a static
  alias, relaxed lookup of the name.

  Modelling decisions.
  \<^item> A JavaScript \<open>number\<close> is a binary64 floating-point number: \<open>NaN\<close>, an infinity,
    or a finite value given by sign, mantissa and exponent. The one arithmetic operation
    of the file, the product with \<open>MILLION\<close>, is the correctly rounded binary64 product.
  \<^item> \<open>null\<close> and \<open>undefined\<close> are \<open>None\<close>: the source tests both with \<open>!= null\<close>
    and \<open>??\<close>, which do not tell them apart.
  \<^item> An \<open>async\<close> method is a function from the accessor's state to a result and the
    new state. A rejected promise is \<open>Inl\<close> of the thrown value, a fulfilled one
    \<open>Inr\<close> of the value.
  \<^item> The accessor is a parameter: a record of its two methods over a state type
    \<open>'s\<close> and an error type \<open>'e\<close>, each returning a \<open>Result\<close> (\<open>Inl\<close> the failure).
\<close>

subsection \<open>Numbers\<close>

text \<open>
  \<open>Finite neg m e\<close> stands for the number \<open>m * 2 ^ e\<close> with \<open>0 \<le> m\<close>, negated when
  \<open>neg\<close> holds. The finite binary64 numbers are those with a form where
  \<open>m < 2 ^ 53\<close>, \<open>- 1074 \<le> e \<le> 971\<close> and \<open>2 ^ 52 \<le> m\<close> unless \<open>e = - 1074\<close>. Both zeros
  exist (\<open>m = 0\<close> with either sign). The comparison \<open>jsEq\<close> below compares values, so
  it does not depend on the form in which a number is written.
\<close>

datatype number = NaN | Infinity bool | Finite bool int int

text \<open>The number of binary digits of a positive integer.\<close>

function bitLength :: "int \<Rightarrow> nat" where
  "bitLength n = (if n \<le> 0 then 0 else Suc (bitLength (n div 2)))"
  by pat_completeness auto
termination
  by (relation "measure nat") auto

declare bitLength.simps [simp del]

text \<open>
  Rounding to nearest, ties to even (the rounding of every JavaScript arithmetic
  operation and of every numeric literal), in stages. For positive integers \<open>p\<close> and
  \<open>q\<close> and \<open>d\<close> the difference of their bit lengths, \<open>floorLog2 p q d\<close> is the integer
  part of the binary logarithm of \<open>p / q\<close>. From it comes the exponent \<open>ulp\<close> of the last
  mantissa digit: 52 below the leading digit, and never below \<open>- 1074\<close> (subnormal
  numbers). \<open>p / q\<close> is then divided by \<open>2 ^ ulp\<close> and rounded to an integer, half-way
  cases to the even neighbour; a mantissa that rounds up to \<open>2 ^ 53\<close> moves to the next
  exponent, and an exponent above 971 is an overflow to infinity.
\<close>

definition floorLog2 :: "int \<Rightarrow> int \<Rightarrow> int \<Rightarrow> int" where
  "floorLog2 p q d = (if q * 2 ^ nat d \<le> p * 2 ^ nat (- d) then d else d - 1)"

definition roundHalfEven :: "int \<Rightarrow> int \<Rightarrow> int \<Rightarrow> int" where
  "roundHalfEven n r unit = (if unit < 2 * r \<or> (2 * r = unit \<and> odd n) then n + 1 else n)"

definition pack :: "bool \<Rightarrow> int \<Rightarrow> int \<Rightarrow> number" where
  "pack neg m ulp =
     (if m = 2 ^ 53
      then (if 971 < ulp + 1 then Infinity neg else Finite neg (2 ^ 52) (ulp + 1))
      else (if 971 < ulp then Infinity neg else Finite neg m ulp))"

definition roundRatio :: "bool \<Rightarrow> int \<Rightarrow> int \<Rightarrow> int \<Rightarrow> number" where
  "roundRatio neg scaled unit ulp =
     pack neg (roundHalfEven (scaled div unit) (scaled mod unit) unit) ulp"

definition roundAt :: "bool \<Rightarrow> int \<Rightarrow> int \<Rightarrow> int \<Rightarrow> number" where
  "roundAt neg p q ulp = roundRatio neg (p * 2 ^ nat (- ulp)) (q * 2 ^ nat ulp) ulp"

text \<open>
  \<open>nearest neg p q\<close>: the binary64 number nearest to the fraction \<open>p / q\<close>, with the sign
  \<open>neg\<close>. A decimal literal of the source or of a catalog denotes such a number:
  \<open>1.25e-6\<close> is \<open>nearest False 125 100000000\<close>.
\<close>

definition nearest :: "bool \<Rightarrow> int \<Rightarrow> int \<Rightarrow> number" where
  "nearest neg p q =
     (if p \<le> 0 \<or> q \<le> 0 then Finite neg 0 (- 1074)
      else roundAt neg p q
             (max (floorLog2 p q (int (bitLength p) - int (bitLength q)) - 52) (- 1074)))"

text \<open>
  The operator \<open>*\<close> on numbers: \<open>NaN\<close> is absorbing, zero times infinity is \<open>NaN\<close>, the
  sign of a product is the exclusive or of the signs, and a finite product is the exact
  product rounded.
\<close>

fun jsMul :: "number \<Rightarrow> number \<Rightarrow> number" where
  "jsMul NaN y = NaN"
| "jsMul x NaN = NaN"
| "jsMul (Infinity s) (Infinity t) = Infinity (s \<noteq> t)"
| "jsMul (Infinity s) (Finite t n f) = (if n = 0 then NaN else Infinity (s \<noteq> t))"
| "jsMul (Finite s m e) (Infinity t) = (if m = 0 then NaN else Infinity (s \<noteq> t))"
| "jsMul (Finite s m e) (Finite t n f) =
     nearest (s \<noteq> t) (m * n * 2 ^ nat (e + f)) (2 ^ nat (- (e + f)))"

text \<open>
  The operator \<open>==\<close> on numbers: \<open>NaN\<close> equals nothing, not even itself; the two zeros
  are equal; otherwise the values are compared.
\<close>

fun jsEq :: "number \<Rightarrow> number \<Rightarrow> bool" where
  "jsEq NaN y = False"
| "jsEq x NaN = False"
| "jsEq (Infinity s) (Infinity t) = (s = t)"
| "jsEq (Infinity s) (Finite t n f) = False"
| "jsEq (Finite s m e) (Infinity t) = False"
| "jsEq (Finite s m e) (Finite t n f) =
     ((m = 0 \<and> n = 0) \<or> (s = t \<and> m * 2 ^ nat (e - f) = n * 2 ^ nat (f - e)))"

text \<open>The real number a finite number stands for.\<close>

fun valueOf :: "number \<Rightarrow> real option" where
  "valueOf NaN = None"
| "valueOf (Infinity s) = None"
| "valueOf (Finite s m e) =
     Some ((if s then - 1 else 1) * (of_int m * 2 ^ nat e / 2 ^ nat (- e)))"

subsection \<open>Data\<close>

text \<open>
  Modelled from the spec: the catalog entry type \<open>LiteLLMModelPricing\<close>, declared in
  the package \<open>@ccusage/internal/pricing\<close>, which is not among the sources (the
  specification's \<open>RawPricingEntry\<close>: three optional per-token costs and unrelated
  metadata such as token limits). The field names are those the source reads and its
  tests write; every field may be absent.
\<close>

record LiteLLMModelPricing =
  input_cost_per_token :: "number option"
  output_cost_per_token :: "number option"
  cache_read_input_token_cost :: "number option"
  max_tokens :: "number option"
  max_input_tokens :: "number option"
  max_output_tokens :: "number option"

text \<open>
  The object literal returned by \<open>getPricing\<close>. Its type \<open>ModelPricing\<close> is declared in
  \<open>_types.ts\<close>, which is not among the sources; the three fields are those of the literal.
\<close>

record ModelPricing =
  inputCostPerMToken :: number
  cachedInputCostPerMToken :: number
  outputCostPerMToken :: number

text \<open>
  What a call can throw: the accessor's own error value, rethrown as it is
  (\<open>throw pricingLookup.error\<close>, \<open>throw lookup.error\<close>), the \<open>Error\<close> built at the end
  of \<open>getPricing\<close> with its message, or the \<open>TypeError\<close> JavaScript raises when a
  property of \<open>null\<close> is read. The constructor only records which \<open>throw\<close> it was.
\<close>

datatype 'e thrown = FetcherError 'e | Error string | TypeError

type_synonym ('s, 'e, 'a) promise = "'s \<Rightarrow> ('e thrown + 'a) \<times> 's"

text \<open>
  The two methods of \<open>LiteLLMPricingFetcher\<close> that the source calls, as it uses them:
  \<open>fetchModelPricing()\<close> yields a \<open>Result\<close> holding a \<open>Map\<close> from key to entry,
  \<open>getModelPricing(model)\<close> a \<open>Result\<close> holding an entry or \<open>null\<close>. Nothing is assumed
  about what they answer, nor that two calls answer alike.
\<close>

record ('s, 'e) LiteLLMPricingFetcher =
  fetchModelPricing :: "'s \<Rightarrow> ('e + (string \<rightharpoonup> LiteLLMModelPricing)) \<times> 's"
  getModelPricing :: "string \<Rightarrow> 's \<Rightarrow> ('e + LiteLLMModelPricing option) \<times> 's"

subsection \<open>Constants\<close>

definition CODEX_PROVIDER_PREFIXES :: "string list" where
  "CODEX_PROVIDER_PREFIXES = [''openai/'', ''azure/'', ''openrouter/openai/'']"

definition CODEX_MODEL_ALIASES_MAP :: "string \<rightharpoonup> string" where
  "CODEX_MODEL_ALIASES_MAP =
     map_of [(''gpt-5-codex'', ''gpt-5''), (''gpt-5.3-codex'', ''gpt-5.2-codex'')]"

text \<open>
  Modelled from the spec: the constant \<open>MILLION\<close> of \<open>_consts.ts\<close>, which is not among
  the sources; the specification gives the factor as \<open>1_000_000\<close>.
\<close>

definition MILLION :: number where
  "MILLION = nearest False 1000000 1"

subsection \<open>Sequencing\<close>

definition resolved :: "'a \<Rightarrow> ('s, 'e, 'a) promise" where
  "resolved v s = (Inr v, s)"

definition rejected :: "'e thrown \<Rightarrow> ('s, 'e, 'a) promise" where
  "rejected x s = (Inl x, s)"

text \<open>\<open>await m k\<close>: run \<open>m\<close>; if it throws, so does the caller; otherwise go on with its value.\<close>

definition await :: "('s, 'e, 'a) promise \<Rightarrow> ('a \<Rightarrow> ('s, 'e, 'b) promise) \<Rightarrow> ('s, 'e, 'b) promise" where
  "await m k s = (case m s of (Inl x, s') \<Rightarrow> (Inl x, s') | (Inr v, s') \<Rightarrow> k v s')"

subsection \<open>Functions\<close>

definition toPerMillion :: "number option \<Rightarrow> number option \<Rightarrow> number" where
  "toPerMillion val fallback =
     (let perToken = (case val of Some v \<Rightarrow> v
                      | None \<Rightarrow> (case fallback of Some w \<Rightarrow> w | None \<Rightarrow> nearest False 0 1))
      in jsMul perToken MILLION)"

definition hasCompleteTokenPricing :: "LiteLLMModelPricing option \<Rightarrow> bool" where
  "hasCompleteTokenPricing pricing =
     (case pricing of
        None \<Rightarrow> False
      | Some p \<Rightarrow> input_cost_per_token p \<noteq> None \<and> output_cost_per_token p \<noteq> None)"

text \<open>The \<open>for\<close> loop of \<open>getStrictPricing\<close> over the candidate keys.\<close>

fun firstCandidate :: "(string \<rightharpoonup> LiteLLMModelPricing) \<Rightarrow> string list \<Rightarrow> LiteLLMModelPricing option" where
  "firstCandidate pricingMap [] = None"
| "firstCandidate pricingMap (candidate # rest) =
     (case pricingMap candidate of
        Some pricing \<Rightarrow> Some pricing
      | None \<Rightarrow> firstCandidate pricingMap rest)"

definition getStrictPricing ::
  "('s, 'e) LiteLLMPricingFetcher \<Rightarrow> string \<Rightarrow> ('s, 'e, LiteLLMModelPricing option) promise" where
  "getStrictPricing fetcher model s =
     (case fetchModelPricing fetcher s of
        (Inl err, s') \<Rightarrow> (Inl (FetcherError err), s')
      | (Inr pricingMap, s') \<Rightarrow>
          (let candidates = model # map (\<lambda>prefix. prefix @ model) CODEX_PROVIDER_PREFIXES
           in (Inr (firstCandidate pricingMap candidates), s')))"

definition getRelaxedPricing ::
  "('s, 'e) LiteLLMPricingFetcher \<Rightarrow> string \<Rightarrow> ('s, 'e, LiteLLMModelPricing option) promise" where
  "getRelaxedPricing fetcher model s =
     (case getModelPricing fetcher model s of
        (Inl err, s') \<Rightarrow> (Inl (FetcherError err), s')
      | (Inr v, s') \<Rightarrow> (Inr v, s'))"

text \<open>
  \<open>getPricing\<close>, lines 79 to 99: the value of the variable \<open>pricing\<close> after the three
  fallback blocks.
\<close>

definition getPricing_lookup ::
  "('s, 'e) LiteLLMPricingFetcher \<Rightarrow> string \<Rightarrow> ('s, 'e, LiteLLMModelPricing option) promise" where
  "getPricing_lookup fetcher model =
     await (getStrictPricing fetcher model) (\<lambda>pricing.
     await (if \<not> hasCompleteTokenPricing pricing then
              (case CODEX_MODEL_ALIASES_MAP model of
                 Some alias \<Rightarrow>
                   await (getStrictPricing fetcher alias) (\<lambda>aliasPricing.
                   await (if \<not> hasCompleteTokenPricing aliasPricing
                          then getRelaxedPricing fetcher alias
                          else resolved aliasPricing) (\<lambda>aliasPricing.
                   resolved (if hasCompleteTokenPricing aliasPricing then aliasPricing else pricing)))
               | None \<Rightarrow> resolved pricing)
            else resolved pricing) (\<lambda>pricing.
     if \<not> hasCompleteTokenPricing pricing then
       await (getRelaxedPricing fetcher model) (\<lambda>relaxedPricing.
       resolved (if hasCompleteTokenPricing relaxedPricing then relaxedPricing else pricing))
     else resolved pricing))"

text \<open>\<open>getPricing\<close>, lines 105 to 112: the returned object literal.\<close>

definition toModelPricing :: "LiteLLMModelPricing \<Rightarrow> ModelPricing" where
  "toModelPricing pricing =
     \<lparr> inputCostPerMToken = toPerMillion (input_cost_per_token pricing) None,
       cachedInputCostPerMToken =
         toPerMillion (cache_read_input_token_cost pricing) (input_cost_per_token pricing),
       outputCostPerMToken = toPerMillion (output_cost_per_token pricing) None \<rparr>"

text \<open>
  \<open>getPricing\<close>, lines 101 to 112: the final check and the conversion. Reading a
  field of \<open>null\<close> would raise a \<open>TypeError\<close>; the check before it excludes that.
\<close>

definition getPricing_convert :: "string \<Rightarrow> LiteLLMModelPricing option \<Rightarrow> ('s, 'e, ModelPricing) promise" where
  "getPricing_convert model pricing =
     (if \<not> hasCompleteTokenPricing pricing then
        rejected (Error (''Pricing not found for model '' @ model))
      else (case pricing of
              Some p \<Rightarrow> resolved (toModelPricing p)
            | None \<Rightarrow> rejected TypeError))"

definition getPricing :: "('s, 'e) LiteLLMPricingFetcher \<Rightarrow> string \<Rightarrow> ('s, 'e, ModelPricing) promise" where
  "getPricing fetcher model =
     await (getPricing_lookup fetcher model) (getPricing_convert model)"

subsection \<open>Observing the accessor\<close>

text \<open>
  Several properties are about which accessor calls a resolution makes. \<open>traced\<close>
  wraps any accessor so that its state also holds the list of calls made so far, each
  with the response the wrapped accessor gave (a spy, in testing terms). The wrapped
  accessor's answers and state are unchanged.
\<close>

datatype call = FetchModelPricing | GetModelPricing string

datatype 'e event =
    FetchedAll "'e + (string \<rightharpoonup> LiteLLMModelPricing)"
  | FetchedOne string "'e + LiteLLMModelPricing option"

fun call_of :: "'e event \<Rightarrow> call" where
  "call_of (FetchedAll r) = FetchModelPricing"
| "call_of (FetchedOne name r) = GetModelPricing name"

definition traced ::
  "('s, 'e) LiteLLMPricingFetcher \<Rightarrow> ('s \<times> 'e event list, 'e) LiteLLMPricingFetcher" where
  "traced fetcher =
     \<lparr> fetchModelPricing = (\<lambda>(s, evs).
         case fetchModelPricing fetcher s of (r, s') \<Rightarrow> (r, (s', evs @ [FetchedAll r]))),
       getModelPricing = (\<lambda>name (s, evs).
         case getModelPricing fetcher name s of (r, s') \<Rightarrow> (r, (s', evs @ [FetchedOne name r]))) \<rparr>"

subsection \<open>The specification's vocabulary\<close>

text \<open>
  Strict lookup in the specification's words: the candidate keys are the name, then
  each provider prefix followed by the name; the entry of the first key that exists.
\<close>

definition candidateKeys :: "string \<Rightarrow> string list" where
  "candidateKeys name =
     [name, ''openai/'' @ name, ''azure/'' @ name, ''openrouter/openai/'' @ name]"

definition strictEntry :: "(string \<rightharpoonup> LiteLLMModelPricing) \<Rightarrow> string \<Rightarrow> LiteLLMModelPricing option" where
  "strictEntry catalog name =
     (case find (\<lambda>key. catalog key \<noteq> None) (candidateKeys name) of
        Some key \<Rightarrow> catalog key
      | None \<Rightarrow> None)"

text \<open>
  The resolution avenues in the specification's order: strict on the name, strict and
  relaxed on the alias when there is one, relaxed on the name.
\<close>

datatype avenue = Strict string | Relaxed string

definition avenues :: "string \<Rightarrow> avenue list" where
  "avenues model =
     Strict model #
     (case CODEX_MODEL_ALIASES_MAP model of
        Some alias \<Rightarrow> [Strict alias, Relaxed alias]
      | None \<Rightarrow> []) @
     [Relaxed model]"

fun call_for :: "avenue \<Rightarrow> call" where
  "call_for (Strict name) = FetchModelPricing"
| "call_for (Relaxed name) = GetModelPricing name"

text \<open>
  What an avenue yields from the accessor's response to its call: the accessor's
  failure, or the entry found (\<open>None\<close> when nothing is found).
\<close>

fun outcome :: "avenue \<Rightarrow> 'e event \<Rightarrow> 'e + LiteLLMModelPricing option" where
  "outcome (Strict name) (FetchedAll (Inr catalog)) = Inr (strictEntry catalog name)"
| "outcome (Strict name) (FetchedAll (Inl err)) = Inl err"
| "outcome (Relaxed name) (FetchedOne n r) = r"
| "outcome (Strict name) (FetchedOne n r) = Inr None"
| "outcome (Relaxed name) (FetchedAll r) = Inr None"

text \<open>The failure an accessor response carries, if it is one.\<close>

fun failure_of :: "'e event \<Rightarrow> 'e option" where
  "failure_of (FetchedAll (Inl err)) = Some err"
| "failure_of (FetchedAll (Inr catalog)) = None"
| "failure_of (FetchedOne name (Inl err)) = Some err"
| "failure_of (FetchedOne name (Inr found)) = None"

text \<open>
  The branch of \<open>toPerMillion\<close> that yields zero: neither the value nor the fallback is
  there.
\<close>

definition zeroDefaulted :: "number option \<Rightarrow> number option \<Rightarrow> bool" where
  "zeroDefaulted val fallback = (val = None \<and> fallback = None)"

subsection \<open>Test accessors\<close>

text \<open>
  Modelled from the spec: the Catalog Accessor (\<open>LiteLLMPricingFetcher\<close> of the package
  \<open>@ccusage/internal/pricing\<close>, which is not among the sources), reduced to what the
  specification fixes: the batch query returns the whole catalog, the relaxed query
  returns one entry or none. The relaxed matching itself is a parameter. The state
  counts the calls made, and the call number \<open>failAt\<close> (from 0) fails with \<open>err\<close>;
  \<open>failAt = None\<close> never fails.
\<close>

definition catalogFetcher ::
  "(string \<rightharpoonup> LiteLLMModelPricing) \<Rightarrow> (string \<Rightarrow> LiteLLMModelPricing option) \<Rightarrow> (nat \<times> 'e) option
     \<Rightarrow> (nat, 'e) LiteLLMPricingFetcher" where
  "catalogFetcher catalog relaxed failure =
     \<lparr> fetchModelPricing = (\<lambda>n.
         case failure of
           Some (failAt, err) \<Rightarrow> (if n = failAt then (Inl err, Suc n) else (Inr catalog, Suc n))
         | None \<Rightarrow> (Inr catalog, Suc n)),
       getModelPricing = (\<lambda>name n.
         case failure of
           Some (failAt, err) \<Rightarrow> (if n = failAt then (Inl err, Suc n) else (Inr (relaxed name), Suc n))
         | None \<Rightarrow> (Inr (relaxed name), Suc n)) \<rparr>"

text \<open>The entries of the source's own tests.\<close>

definition noFields :: LiteLLMModelPricing where
  "noFields =
     \<lparr> input_cost_per_token = None, output_cost_per_token = None,
       cache_read_input_token_cost = None, max_tokens = None,
       max_input_tokens = None, max_output_tokens = None \<rparr>"

definition gpt5_entry :: LiteLLMModelPricing where
  "gpt5_entry =
     noFields \<lparr> input_cost_per_token := Some (nearest False 125 100000000),
                output_cost_per_token := Some (nearest False 1 100000),
                cache_read_input_token_cost := Some (nearest False 125 1000000000) \<rparr>"

definition gpt52_codex_entry :: LiteLLMModelPricing where
  "gpt52_codex_entry =
     noFields \<lparr> input_cost_per_token := Some (nearest False 15 10000000),
                output_cost_per_token := Some (nearest False 12 1000000),
                cache_read_input_token_cost := Some (nearest False 15 100000000) \<rparr>"

definition limits_only_entry :: LiteLLMModelPricing where
  "limits_only_entry =
     noFields \<lparr> max_tokens := Some (nearest False 128000 1), max_input_tokens := Some (nearest False 128000 1),
                max_output_tokens := Some (nearest False 128000 1) \<rparr>"

definition no_cache_entry :: LiteLLMModelPricing where
  "no_cache_entry =
     noFields \<lparr> input_cost_per_token := Some (nearest False 15 10000000),
                output_cost_per_token := Some (nearest False 12 1000000) \<rparr>"

definition cache_only_entry :: LiteLLMModelPricing where
  "cache_only_entry = noFields \<lparr> cache_read_input_token_cost := Some (nearest False 9 10000000) \<rparr>"

text \<open>
  An input cost of \<open>9e-7\<close>, whose product with one million is not exact, and a cost
  that is \<open>NaN\<close>.
\<close>

definition rounding_entry :: LiteLLMModelPricing where
  "rounding_entry =
     noFields \<lparr> input_cost_per_token := Some (nearest False 9 10000000),
                output_cost_per_token := Some (nearest False 1 100000) \<rparr>"

definition nan_entry :: LiteLLMModelPricing where
  "nan_entry =
     noFields \<lparr> input_cost_per_token := Some NaN,
                output_cost_per_token := Some (nearest False 1 100000) \<rparr>"

text \<open>Catalogs: those of the source's three tests, and variations on them.\<close>

definition gpt5_catalog :: "string \<rightharpoonup> LiteLLMModelPricing" where
  "gpt5_catalog = map_of [(''gpt-5'', gpt5_entry)]"

definition limits_catalog :: "string \<rightharpoonup> LiteLLMModelPricing" where
  "limits_catalog =
     map_of [(''gpt-5.3-codex'', limits_only_entry), (''gpt-5.2-codex'', gpt52_codex_entry)]"

definition empty_catalog :: "string \<rightharpoonup> LiteLLMModelPricing" where
  "empty_catalog = map_of []"

definition prefixed_catalog :: "string \<rightharpoonup> LiteLLMModelPricing" where
  "prefixed_catalog =
     map_of [(''azure/gpt-4'', gpt52_codex_entry), (''openai/gpt-4'', gpt5_entry)]"

definition bare_incomplete_catalog :: "string \<rightharpoonup> LiteLLMModelPricing" where
  "bare_incomplete_catalog =
     map_of [(''openai/gpt-4'', gpt5_entry), (''gpt-4'', limits_only_entry)]"

definition prefixed_codex_catalog :: "string \<rightharpoonup> LiteLLMModelPricing" where
  "prefixed_codex_catalog =
     map_of [(''openai/gpt-5-codex'', gpt52_codex_entry), (''gpt-5'', gpt5_entry)]"

definition split_fields_catalog :: "string \<rightharpoonup> LiteLLMModelPricing" where
  "split_fields_catalog =
     map_of [(''gpt-5.3-codex'', cache_only_entry), (''gpt-5.2-codex'', no_cache_entry)]"

definition rounding_catalog :: "string \<rightharpoonup> LiteLLMModelPricing" where
  "rounding_catalog = map_of [(''gpt-5'', rounding_entry)]"

definition nan_catalog :: "string \<rightharpoonup> LiteLLMModelPricing" where
  "nan_catalog = map_of [(''gpt-5'', nan_entry)]"

definition prefixed_limits_catalog :: "string \<rightharpoonup> LiteLLMModelPricing" where
  "prefixed_limits_catalog =
     map_of [(''openai/gpt-5-codex'', limits_only_entry), (''gpt-5'', gpt5_entry)]"

definition no_cache_catalog :: "string \<rightharpoonup> LiteLLMModelPricing" where
  "no_cache_catalog = map_of [(''gpt-5.2-codex'', no_cache_entry)]"

text \<open>Relaxed matchers: one that never finds anything, one that knows a single name.\<close>

definition neverMatches :: "string \<Rightarrow> LiteLLMModelPricing option" where
  "neverMatches name = None"

definition matchesAlias :: "string \<Rightarrow> LiteLLMModelPricing option" where
  "matchesAlias name = (if name = ''gpt-5.2-codex'' then Some gpt52_codex_entry else None)"

definition noFailure :: "(nat \<times> string) option" where
  "noFailure = None"

definition failSecondCall :: "(nat \<times> string) option" where
  "failSecondCall = Some (1, ''catalog retrieval failed'')"

section \<open>Auxiliary facts\<close>

subsection \<open>Numbers\<close>

text \<open>Evaluating the rounding on numerals.\<close>

lemma bitLength_numeral:
  "bitLength (numeral k) = Suc (bitLength (numeral k div 2))"
  "bitLength 0 = 0"
  "bitLength 1 = 1"
  by (simp_all add: bitLength.simps)

lemmas float_eval =
  nearest_def roundAt_def roundRatio_def pack_def roundHalfEven_def floorLog2_def bitLength_numeral

text \<open>The rounded quotient is within half a unit of the exact one.\<close>

lemma roundHalfEven_nearest:
  assumes "0 < unit"
  shows "2 * \<bar>roundHalfEven (a div unit) (a mod unit) unit * unit - a\<bar> \<le> unit"
proof -
  have eq: "a div unit * unit = a - a mod unit"
    by (simp add: minus_mod_eq_div_mult)
  have r: "0 \<le> a mod unit" "a mod unit < unit"
    using assms by simp_all
  show ?thesis
  proof (cases "unit < 2 * (a mod unit) \<or> (2 * (a mod unit) = unit \<and> odd (a div unit))")
    case True
    then have "roundHalfEven (a div unit) (a mod unit) unit = a div unit + 1"
      by (simp add: roundHalfEven_def)
    then have "roundHalfEven (a div unit) (a mod unit) unit * unit - a = unit - a mod unit"
      by (simp add: eq algebra_simps)
    with True r show ?thesis by auto
  next
    case False
    then have "roundHalfEven (a div unit) (a mod unit) unit = a div unit"
      by (simp add: roundHalfEven_def)
    then have "roundHalfEven (a div unit) (a mod unit) unit * unit - a = - (a mod unit)"
      by (simp add: eq)
    with False r show ?thesis by auto
  qed
qed

text \<open>Rounding never yields \<open>NaN\<close>; only a \<open>NaN\<close> factor makes a product with one million \<open>NaN\<close>.\<close>

lemma nearest_not_NaN: "nearest neg p q \<noteq> NaN"
  by (simp add: nearest_def roundAt_def roundRatio_def pack_def)

lemma MILLION_value: "MILLION = Finite False 8589934592000000 (- 33)"
  by (simp add: MILLION_def float_eval)

lemma jsMul_MILLION_not_NaN: "x \<noteq> NaN \<Longrightarrow> jsMul x MILLION \<noteq> NaN"
  by (cases x) (simp_all add: MILLION_value nearest_not_NaN)

lemma jsEq_refl: "x \<noteq> NaN \<Longrightarrow> jsEq x x"
  by (cases x) simp_all

text \<open>Overflow: \<open>1e303\<close> times one million is infinite.\<close>

lemma jsMul_overflow: "jsMul (nearest False (10 ^ 303) 1) MILLION = Infinity False"
  by (simp add: MILLION_def float_eval)

subsection \<open>The test data\<close>

text \<open>The definitions that evaluating a concrete run unfolds.\<close>

lemmas data_defs =
  catalogFetcher_def noFailure_def failSecondCall_def neverMatches_def matchesAlias_def
  gpt5_catalog_def limits_catalog_def empty_catalog_def prefixed_catalog_def
  bare_incomplete_catalog_def prefixed_codex_catalog_def split_fields_catalog_def no_cache_catalog_def
  rounding_catalog_def nan_catalog_def prefixed_limits_catalog_def
  CODEX_MODEL_ALIASES_MAP_def strictEntry_def candidateKeys_def avenues_def

lemma complete_entries:
  "hasCompleteTokenPricing (Some gpt5_entry)"
  "hasCompleteTokenPricing (Some gpt52_codex_entry)"
  "hasCompleteTokenPricing (Some no_cache_entry)"
  "hasCompleteTokenPricing (Some rounding_entry)"
  "hasCompleteTokenPricing (Some nan_entry)"
  by (simp_all add: hasCompleteTokenPricing_def gpt5_entry_def gpt52_codex_entry_def
        no_cache_entry_def rounding_entry_def nan_entry_def noFields_def)

lemma incomplete_entries:
  "\<not> hasCompleteTokenPricing None"
  "\<not> hasCompleteTokenPricing (Some limits_only_entry)"
  "\<not> hasCompleteTokenPricing (Some cache_only_entry)"
  by (simp_all add: hasCompleteTokenPricing_def limits_only_entry_def cache_only_entry_def noFields_def)

text \<open>
  The conversions of the test entries, computed with the rounding above: \<open>1.25e-6\<close>,
  \<open>1e-5\<close> and \<open>1.25e-7\<close> give the numbers \<open>1.25\<close>, \<open>10\<close> and \<open>0.125\<close>; \<open>1.5e-6\<close>, \<open>1.2e-5\<close>
  and \<open>1.5e-7\<close> give \<open>1.5\<close>, \<open>12\<close> and \<open>0.15\<close>; but \<open>9e-7\<close> gives the number just below
  \<open>0.9\<close>, which prints as \<open>0.8999999999999999\<close>.
\<close>

lemma gpt5_prices:
  "toModelPricing gpt5_entry =
     \<lparr> inputCostPerMToken = nearest False 5 4, cachedInputCostPerMToken = nearest False 1 8,
       outputCostPerMToken = nearest False 10 1 \<rparr>"
  by (simp add: toModelPricing_def toPerMillion_def MILLION_def gpt5_entry_def noFields_def float_eval)

lemma gpt52_codex_prices:
  "toModelPricing gpt52_codex_entry =
     \<lparr> inputCostPerMToken = nearest False 3 2, cachedInputCostPerMToken = nearest False 3 20,
       outputCostPerMToken = nearest False 12 1 \<rparr>"
  by (simp add: toModelPricing_def toPerMillion_def MILLION_def gpt52_codex_entry_def noFields_def
        float_eval)

lemma no_cache_prices:
  "toModelPricing no_cache_entry =
     \<lparr> inputCostPerMToken = nearest False 3 2, cachedInputCostPerMToken = nearest False 3 2,
       outputCostPerMToken = nearest False 12 1 \<rparr>"
  by (simp add: toModelPricing_def toPerMillion_def MILLION_def no_cache_entry_def noFields_def
        float_eval)

lemma rounding_prices:
  "toModelPricing rounding_entry =
     \<lparr> inputCostPerMToken = Finite False 8106479329266892 (- 53),
       cachedInputCostPerMToken = Finite False 8106479329266892 (- 53),
       outputCostPerMToken = nearest False 10 1 \<rparr>"
  by (simp add: toModelPricing_def toPerMillion_def MILLION_def rounding_entry_def noFields_def
        float_eval)

lemma nan_prices:
  "toModelPricing nan_entry =
     \<lparr> inputCostPerMToken = NaN, cachedInputCostPerMToken = NaN,
       outputCostPerMToken = nearest False 10 1 \<rparr>"
  by (simp add: toModelPricing_def toPerMillion_def MILLION_def nan_entry_def noFields_def
        float_eval)

lemmas entry_facts =
  complete_entries incomplete_entries gpt5_prices gpt52_codex_prices no_cache_prices
  rounding_prices nan_prices

subsection \<open>The resolver\<close>

text \<open>The returned literal, field by field, for an entry with both costs.\<close>

lemma toModelPricing_fields:
  assumes "input_cost_per_token entry = Some i" and "output_cost_per_token entry = Some out"
  shows "toModelPricing entry =
     \<lparr> inputCostPerMToken = jsMul i MILLION,
       cachedInputCostPerMToken =
         jsMul (case cache_read_input_token_cost entry of Some c \<Rightarrow> c | None \<Rightarrow> i) MILLION,
       outputCostPerMToken = jsMul out MILLION \<rparr>"
  using assms by (simp add: toModelPricing_def toPerMillion_def split: option.splits)

lemma complete_prices:
  assumes "hasCompleteTokenPricing (Some entry)"
  shows "\<exists>i out. input_cost_per_token entry = Some i
    \<and> output_cost_per_token entry = Some out
    \<and> toModelPricing entry =
        \<lparr> inputCostPerMToken = jsMul i MILLION,
          cachedInputCostPerMToken =
            jsMul (case cache_read_input_token_cost entry of Some c \<Rightarrow> c | None \<Rightarrow> i) MILLION,
          outputCostPerMToken = jsMul out MILLION \<rparr>"
  using assms by (auto simp: hasCompleteTokenPricing_def toModelPricing_fields)

text \<open>The loop of the source computes the strict lookup of the specification.\<close>

lemma firstCandidate_find:
  "firstCandidate m ks = (case find (\<lambda>key. m key \<noteq> None) ks of Some key \<Rightarrow> m key | None \<Rightarrow> None)"
  by (induction ks) (auto split: option.splits)

lemma getStrictPricing_strictEntry:
  "getStrictPricing f name s =
     (case fetchModelPricing f s of
        (Inl err, s') \<Rightarrow> (Inl (FetcherError err), s')
      | (Inr catalog, s') \<Rightarrow> (Inr (strictEntry catalog name), s'))"
  by (simp add: getStrictPricing_def strictEntry_def candidateKeys_def CODEX_PROVIDER_PREFIXES_def
        firstCandidate_find split: prod.splits sum.splits)

text \<open>Each lookup on an observed accessor adds exactly one event.\<close>

lemma strict_traced:
  "getStrictPricing (traced f) name (s, evs) =
     (case fetchModelPricing f s of
        (Inl err, s') \<Rightarrow> (Inl (FetcherError err), (s', evs @ [FetchedAll (Inl err)]))
      | (Inr catalog, s') \<Rightarrow> (Inr (strictEntry catalog name), (s', evs @ [FetchedAll (Inr catalog)])))"
  by (simp add: getStrictPricing_strictEntry traced_def split: prod.splits sum.splits)

lemma relaxed_traced:
  "getRelaxedPricing (traced f) name (s, evs) =
     (case getModelPricing f name s of
        (Inl err, s') \<Rightarrow> (Inl (FetcherError err), (s', evs @ [FetchedOne name (Inl err)]))
      | (Inr found, s') \<Rightarrow> (Inr found, (s', evs @ [FetchedOne name (Inr found)])))"
  by (simp add: getRelaxedPricing_def traced_def split: prod.splits sum.splits)

lemma relaxed_plain:
  "getRelaxedPricing f name s =
     (case getModelPricing f name s of
        (Inl err, s') \<Rightarrow> (Inl (FetcherError err), s')
      | (Inr found, s') \<Rightarrow> (Inr found, s'))"
  by (simp add: getRelaxedPricing_def)

text \<open>
  The ten paths through the fallback blocks, each with the accessor responses that
  select it, the final value of \<open>pricing\<close> and the calls made.
\<close>

lemma lookup_traced_paths:
  assumes run: "getPricing_lookup (traced f) model (s, []) = (r, (s', evs))"
  obtains
    (fail1) e where
      "fetchModelPricing f s = (Inl e, s')"
      "r = Inl (FetcherError e)" "evs = [FetchedAll (Inl e)]"
  | (hit1) c1 where
      "fetchModelPricing f s = (Inr c1, s')" "hasCompleteTokenPricing (strictEntry c1 model)"
      "r = Inr (strictEntry c1 model)" "evs = [FetchedAll (Inr c1)]"
  | (fail4') c1 s1 e where
      "fetchModelPricing f s = (Inr c1, s1)" "\<not> hasCompleteTokenPricing (strictEntry c1 model)"
      "CODEX_MODEL_ALIASES_MAP model = None"
      "getModelPricing f model s1 = (Inl e, s')"
      "r = Inl (FetcherError e)" "evs = [FetchedAll (Inr c1), FetchedOne model (Inl e)]"
  | (done4') c1 s1 found where
      "fetchModelPricing f s = (Inr c1, s1)" "\<not> hasCompleteTokenPricing (strictEntry c1 model)"
      "CODEX_MODEL_ALIASES_MAP model = None"
      "getModelPricing f model s1 = (Inr found, s')"
      "r = Inr (if hasCompleteTokenPricing found then found else strictEntry c1 model)"
      "evs = [FetchedAll (Inr c1), FetchedOne model (Inr found)]"
  | (fail2) c1 s1 aka e where
      "fetchModelPricing f s = (Inr c1, s1)" "\<not> hasCompleteTokenPricing (strictEntry c1 model)"
      "CODEX_MODEL_ALIASES_MAP model = Some aka"
      "fetchModelPricing f s1 = (Inl e, s')"
      "r = Inl (FetcherError e)" "evs = [FetchedAll (Inr c1), FetchedAll (Inl e)]"
  | (hit2) c1 s1 aka c2 where
      "fetchModelPricing f s = (Inr c1, s1)" "\<not> hasCompleteTokenPricing (strictEntry c1 model)"
      "CODEX_MODEL_ALIASES_MAP model = Some aka"
      "fetchModelPricing f s1 = (Inr c2, s')" "hasCompleteTokenPricing (strictEntry c2 aka)"
      "r = Inr (strictEntry c2 aka)" "evs = [FetchedAll (Inr c1), FetchedAll (Inr c2)]"
  | (fail3) c1 s1 aka c2 s2 e where
      "fetchModelPricing f s = (Inr c1, s1)" "\<not> hasCompleteTokenPricing (strictEntry c1 model)"
      "CODEX_MODEL_ALIASES_MAP model = Some aka"
      "fetchModelPricing f s1 = (Inr c2, s2)" "\<not> hasCompleteTokenPricing (strictEntry c2 aka)"
      "getModelPricing f aka s2 = (Inl e, s')"
      "r = Inl (FetcherError e)"
      "evs = [FetchedAll (Inr c1), FetchedAll (Inr c2), FetchedOne aka (Inl e)]"
  | (hit3) c1 s1 aka c2 s2 found3 where
      "fetchModelPricing f s = (Inr c1, s1)" "\<not> hasCompleteTokenPricing (strictEntry c1 model)"
      "CODEX_MODEL_ALIASES_MAP model = Some aka"
      "fetchModelPricing f s1 = (Inr c2, s2)" "\<not> hasCompleteTokenPricing (strictEntry c2 aka)"
      "getModelPricing f aka s2 = (Inr found3, s')" "hasCompleteTokenPricing found3"
      "r = Inr found3"
      "evs = [FetchedAll (Inr c1), FetchedAll (Inr c2), FetchedOne aka (Inr found3)]"
  | (fail4) c1 s1 aka c2 s2 found3 s3 e where
      "fetchModelPricing f s = (Inr c1, s1)" "\<not> hasCompleteTokenPricing (strictEntry c1 model)"
      "CODEX_MODEL_ALIASES_MAP model = Some aka"
      "fetchModelPricing f s1 = (Inr c2, s2)" "\<not> hasCompleteTokenPricing (strictEntry c2 aka)"
      "getModelPricing f aka s2 = (Inr found3, s3)" "\<not> hasCompleteTokenPricing found3"
      "getModelPricing f model s3 = (Inl e, s')"
      "r = Inl (FetcherError e)"
      "evs = [FetchedAll (Inr c1), FetchedAll (Inr c2), FetchedOne aka (Inr found3),
              FetchedOne model (Inl e)]"
  | (done4) c1 s1 aka c2 s2 found3 s3 found where
      "fetchModelPricing f s = (Inr c1, s1)" "\<not> hasCompleteTokenPricing (strictEntry c1 model)"
      "CODEX_MODEL_ALIASES_MAP model = Some aka"
      "fetchModelPricing f s1 = (Inr c2, s2)" "\<not> hasCompleteTokenPricing (strictEntry c2 aka)"
      "getModelPricing f aka s2 = (Inr found3, s3)" "\<not> hasCompleteTokenPricing found3"
      "getModelPricing f model s3 = (Inr found, s')"
      "r = Inr (if hasCompleteTokenPricing found then found else strictEntry c1 model)"
      "evs = [FetchedAll (Inr c1), FetchedAll (Inr c2), FetchedOne aka (Inr found3),
              FetchedOne model (Inr found)]"
proof -
  note defs = getPricing_lookup_def await_def resolved_def strict_traced relaxed_traced
  obtain r1 s1 where f1: "fetchModelPricing f s = (r1, s1)"
    by (cases "fetchModelPricing f s")
  show thesis
  proof (cases r1)
    case (Inl e)
    with run f1 show thesis
      by (intro fail1 [of e]) (simp_all add: defs)
  next
    case c1: (Inr c1)
    show thesis
    proof (cases "hasCompleteTokenPricing (strictEntry c1 model)")
      case True
      with run f1 c1 show thesis
        by (intro hit1 [of c1]) (simp_all add: defs)
    next
      case inc1: False
      show thesis
      proof (cases "CODEX_MODEL_ALIASES_MAP model")
        case None
        obtain r4 s4 where f4: "getModelPricing f model s1 = (r4, s4)"
          by (cases "getModelPricing f model s1")
        show thesis
        proof (cases r4)
          case (Inl e)
          with run f1 c1 inc1 None f4 show thesis
            by (intro fail4' [of c1 s1 e]) (simp_all add: defs)
        next
          case (Inr found)
          with run f1 c1 inc1 None f4 show thesis
            by (intro done4' [of c1 s1 found]) (auto simp: defs)
        qed
      next
        case aka: (Some aka)
        obtain r2 s2 where f2: "fetchModelPricing f s1 = (r2, s2)"
          by (cases "fetchModelPricing f s1")
        show thesis
        proof (cases r2)
          case (Inl e)
          with run f1 c1 inc1 aka f2 show thesis
            by (intro fail2 [of c1 s1 aka e]) (simp_all add: defs)
        next
          case c2: (Inr c2)
          show thesis
          proof (cases "hasCompleteTokenPricing (strictEntry c2 aka)")
            case True
            with run f1 c1 inc1 aka f2 c2 show thesis
              by (intro hit2 [of c1 s1 aka c2]) (simp_all add: defs)
          next
            case inc2: False
            obtain r3 s3 where f3: "getModelPricing f aka s2 = (r3, s3)"
              by (cases "getModelPricing f aka s2")
            show thesis
            proof (cases r3)
              case (Inl e)
              with run f1 c1 inc1 aka f2 c2 inc2 f3 show thesis
                by (intro fail3 [of c1 s1 aka c2 s2 e]) (simp_all add: defs)
            next
              case found3: (Inr found3)
              show thesis
              proof (cases "hasCompleteTokenPricing found3")
                case True
                with run f1 c1 inc1 aka f2 c2 inc2 f3 found3 show thesis
                  by (intro hit3 [of c1 s1 aka c2 s2 found3]) (simp_all add: defs)
              next
                case inc3: False
                obtain r4 s4 where f4: "getModelPricing f model s3 = (r4, s4)"
                  by (cases "getModelPricing f model s3")
                show thesis
                proof (cases r4)
                  case (Inl e)
                  with run f1 c1 inc1 aka f2 c2 inc2 f3 found3 inc3 f4 show thesis
                    by (intro fail4 [of c1 s1 aka c2 s2 found3 s3 e]) (simp_all add: defs)
                next
                  case (Inr found)
                  with run f1 c1 inc1 aka f2 c2 inc2 f3 found3 inc3 f4 show thesis
                    by (intro done4 [of c1 s1 aka c2 s2 found3 s3 found]) (auto simp: defs)
                qed
              qed
            qed
          qed
        qed
      qed
    qed
  qed
qed

text \<open>Observing changes neither the result nor the accessor's state.\<close>

lemma lookup_traced_agrees:
  assumes "getPricing_lookup (traced f) model (s, []) = (r, (s', evs))"
  shows "getPricing_lookup f model s = (r, s')"
  using assms
  by (cases rule: lookup_traced_paths)
     (simp_all add: getPricing_lookup_def await_def resolved_def getStrictPricing_strictEntry relaxed_plain)

lemma complete_is_Some: "hasCompleteTokenPricing p \<Longrightarrow> \<exists>entry. p = Some entry"
  by (cases p) (simp_all add: hasCompleteTokenPricing_def)

text \<open>\<open>getPricing\<close> in terms of the value the fallback blocks leave in \<open>pricing\<close>.\<close>

lemma getPricing_after_lookup:
  "getPricing g model st =
     (case getPricing_lookup g model st of
        (Inl x, st') \<Rightarrow> (Inl x, st')
      | (Inr p, st') \<Rightarrow>
          (if hasCompleteTokenPricing p then (Inr (toModelPricing (the p)), st')
           else (Inl (Error (''Pricing not found for model '' @ model)), st')))"
  by (auto simp: getPricing_def getPricing_convert_def await_def resolved_def rejected_def
        split: prod.splits sum.splits option.splits dest: complete_is_Some)

lemma getPricing_traced_lookup:
  assumes run: "getPricing (traced f) model (s, []) = (r, (s', evs))"
  obtains q where "getPricing_lookup (traced f) model (s, []) = (q, (s', evs))"
    and "r = (case q of
                Inl x \<Rightarrow> Inl x
              | Inr p \<Rightarrow>
                  (if hasCompleteTokenPricing p then Inr (toModelPricing (the p))
                   else Inl (Error (''Pricing not found for model '' @ model))))"
proof -
  obtain q st where l: "getPricing_lookup (traced f) model (s, []) = (q, st)"
    by (cases "getPricing_lookup (traced f) model (s, [])")
  from run l have "st = (s', evs)"
    by (auto simp: getPricing_after_lookup split: sum.splits if_splits)
  moreover from run l have "r = (case q of
                Inl x \<Rightarrow> Inl x
              | Inr p \<Rightarrow>
                  (if hasCompleteTokenPricing p then Inr (toModelPricing (the p))
                   else Inl (Error (''Pricing not found for model '' @ model))))"
    by (auto simp: getPricing_after_lookup split: sum.splits if_splits)
  ultimately show thesis using l that by blast
qed

lemma getPricing_traced_agrees:
  assumes run: "getPricing (traced f) model (s, []) = (r, (s', evs))"
  shows "getPricing f model s = (r, s')"
proof -
  from run obtain q where l: "getPricing_lookup (traced f) model (s, []) = (q, (s', evs))"
    and r: "r = (case q of
                Inl x \<Rightarrow> Inl x
              | Inr p \<Rightarrow>
                  (if hasCompleteTokenPricing p then Inr (toModelPricing (the p))
                   else Inl (Error (''Pricing not found for model '' @ model))))"
    by (rule getPricing_traced_lookup)
  from l have "getPricing_lookup f model s = (q, s')" by (rule lookup_traced_agrees)
  with r show ?thesis
    by (auto simp: getPricing_after_lookup [of f] split: sum.splits)
qed

lemma alias_differs: "CODEX_MODEL_ALIASES_MAP model = Some aka \<Longrightarrow> aka \<noteq> model"
  by (auto simp: CODEX_MODEL_ALIASES_MAP_def split: if_splits)

lemma fetch_traced:
  "fetchModelPricing (traced f) (s, evs) =
     (case fetchModelPricing f s of (r, s') \<Rightarrow> (r, (s', evs @ [FetchedAll r])))"
  by (simp add: traced_def)

lemma get_traced:
  "getModelPricing (traced f) name (s, evs) =
     (case getModelPricing f name s of (r, s') \<Rightarrow> (r, (s', evs @ [FetchedOne name r])))"
  by (simp add: traced_def)

lemma strict_result:
  assumes "getStrictPricing f name s = (Inr found, s')"
  obtains catalog where "fetchModelPricing f s = (Inr catalog, s')" and "strictEntry catalog name = found"
  using assms by (auto simp: getStrictPricing_strictEntry split: prod.splits sum.splits)

lemma relaxed_result:
  assumes "getRelaxedPricing f name s = (Inr found, s')"
  shows "getModelPricing f name s = (Inr found, s')"
  using assms by (auto simp: relaxed_plain split: prod.splits sum.splits)

lemma strictEntry_bare: "catalog name = Some entry \<Longrightarrow> strictEntry catalog name = Some entry"
  by (simp add: strictEntry_def candidateKeys_def)

section \<open>Properties\<close>

subsection \<open>Strict lookup\<close>

text \<open>
  C3. The strict lookup asks the accessor for the batch map once and searches it for
  the keys \<open>model\<close>, \<open>openai/model\<close>, \<open>azure/model\<close>, \<open>openrouter/openai/model\<close> in
  that order. It returns the entry of the first key that exists, whether or not that
  entry has cost fields; an accessor failure is rethrown. In particular an entry under
  the bare name is returned as soon as it exists.
\<close>

theorem strict_lookup_first_existing_key:
  "getStrictPricing fetcher model s =
     (case fetchModelPricing fetcher s of
        (Inl err, s') \<Rightarrow> (Inl (FetcherError err), s')
      | (Inr catalog, s') \<Rightarrow>
          (Inr (case find (\<lambda>key. catalog key \<noteq> None)
                       [model, ''openai/'' @ model, ''azure/'' @ model, ''openrouter/openai/'' @ model] of
                  Some key \<Rightarrow> catalog key
                | None \<Rightarrow> None), s'))
   \<and> map call_of (snd (snd (getStrictPricing (traced fetcher) model (s, [])))) = [FetchModelPricing]
   \<and> (\<forall>catalog s' entry. fetchModelPricing fetcher s = (Inr catalog, s') \<and> catalog model = Some entry
          \<longrightarrow> getStrictPricing fetcher model s = (Inr (Some entry), s'))"
proof (intro conjI)
  show "getStrictPricing fetcher model s =
     (case fetchModelPricing fetcher s of
        (Inl err, s') \<Rightarrow> (Inl (FetcherError err), s')
      | (Inr catalog, s') \<Rightarrow>
          (Inr (case find (\<lambda>key. catalog key \<noteq> None)
                       [model, ''openai/'' @ model, ''azure/'' @ model, ''openrouter/openai/'' @ model] of
                  Some key \<Rightarrow> catalog key
                | None \<Rightarrow> None), s'))"
    by (simp add: getStrictPricing_strictEntry strictEntry_def candidateKeys_def
          split: prod.splits sum.splits)
  show "map call_of (snd (snd (getStrictPricing (traced fetcher) model (s, [])))) = [FetchModelPricing]"
    by (simp add: strict_traced split: prod.splits sum.splits)
  show "\<forall>catalog s' entry. fetchModelPricing fetcher s = (Inr catalog, s') \<and> catalog model = Some entry
          \<longrightarrow> getStrictPricing fetcher model s = (Inr (Some entry), s')"
    by (simp add: getStrictPricing_strictEntry strictEntry_def candidateKeys_def)
qed

theorem strict_lookup_first_existing_key_witness:
  "getStrictPricing (catalogFetcher prefixed_catalog neverMatches noFailure) ''gpt-4'' 0
     = (Inr (Some gpt5_entry), 1)
   \<and> getPricing (catalogFetcher prefixed_catalog neverMatches noFailure) ''gpt-4'' 0
     = (Inr \<lparr> inputCostPerMToken = nearest False 5 4, cachedInputCostPerMToken = nearest False 1 8,
              outputCostPerMToken = nearest False 10 1 \<rparr>, 1)
   \<and> prefixed_catalog ''gpt-4'' = None
   \<and> prefixed_catalog ''openai/gpt-4'' = Some gpt5_entry
   \<and> prefixed_catalog ''azure/gpt-4'' = Some gpt52_codex_entry
   \<and> fetchModelPricing (catalogFetcher bare_incomplete_catalog neverMatches noFailure) 0
     = (Inr bare_incomplete_catalog, 1)
   \<and> bare_incomplete_catalog ''gpt-4'' = Some limits_only_entry
   \<and> \<not> hasCompleteTokenPricing (Some limits_only_entry)
   \<and> getStrictPricing (catalogFetcher bare_incomplete_catalog neverMatches noFailure) ''gpt-4'' 0
     = (Inr (Some limits_only_entry), 1)"
proof -
  have fetch: "fetchModelPricing (catalogFetcher bare_incomplete_catalog neverMatches noFailure) 0
     = (Inr bare_incomplete_catalog, 1)"
    by (simp add: catalogFetcher_def noFailure_def)
  have bare: "bare_incomplete_catalog ''gpt-4'' = Some limits_only_entry"
    by (simp add: bare_incomplete_catalog_def)
  have keys: "prefixed_catalog ''gpt-4'' = None \<and> prefixed_catalog ''openai/gpt-4'' = Some gpt5_entry
    \<and> prefixed_catalog ''azure/gpt-4'' = Some gpt52_codex_entry"
    by (simp add: prefixed_catalog_def)
  have inc: "\<not> hasCompleteTokenPricing (Some limits_only_entry)"
    by (simp add: entry_facts)
  note spec = strict_lookup_first_existing_key
  from spec [of "catalogFetcher prefixed_catalog neverMatches noFailure" "''gpt-4''" 0]
  have strict: "getStrictPricing (catalogFetcher prefixed_catalog neverMatches noFailure) ''gpt-4'' 0
     = (Inr (Some gpt5_entry), 1)"
    by (simp add: catalogFetcher_def noFailure_def prefixed_catalog_def)
  then have "getPricing (catalogFetcher prefixed_catalog neverMatches noFailure) ''gpt-4'' 0
     = (Inr \<lparr> inputCostPerMToken = nearest False 5 4, cachedInputCostPerMToken = nearest False 1 8,
              outputCostPerMToken = nearest False 10 1 \<rparr>, 1)"
    by (simp add: getPricing_after_lookup getPricing_lookup_def await_def resolved_def entry_facts)
  moreover note strict
  moreover from spec [of "catalogFetcher bare_incomplete_catalog neverMatches noFailure" "''gpt-4''" 0]
    fetch bare
  have "getStrictPricing (catalogFetcher bare_incomplete_catalog neverMatches noFailure) ''gpt-4'' 0
     = (Inr (Some limits_only_entry), 1)"
    by blast
  ultimately show ?thesis using fetch bare keys inc by simp
qed

subsection \<open>Conversion of an exact match\<close>

text \<open>
  C4 (amended). When the catalog returned by the first batch query has, under the
  requested bare name, an entry with both the input and the output cost, \<open>getPricing\<close>
  succeeds after that single query and returns these two costs times the number
  1000000, the product being the binary64 one: the exact product rounded to the nearest
  number. When the entry also has a cache-read cost, the cached-input cost returned is
  that cost times 1000000 in the same sense.
\<close>

theorem exact_match_converted:
  assumes fetch: "fetchModelPricing fetcher s = (Inr catalog, s')"
    and entry: "catalog model = Some entry"
    and inp: "input_cost_per_token entry = Some i"
    and out: "output_cost_per_token entry = Some out"
  shows "\<exists>r. getPricing fetcher model s = (Inr r, s')
    \<and> inputCostPerMToken r = jsMul i (nearest False 1000000 1)
    \<and> outputCostPerMToken r = jsMul out (nearest False 1000000 1)
    \<and> (\<forall>c. cache_read_input_token_cost entry = Some c
           \<longrightarrow> cachedInputCostPerMToken r = jsMul c (nearest False 1000000 1))"
proof -
  from entry have "strictEntry catalog model = Some entry"
    by (rule strictEntry_bare)
  with fetch inp out have "getPricing fetcher model s = (Inr (toModelPricing entry), s')"
    by (simp add: getPricing_after_lookup getPricing_lookup_def await_def resolved_def
          getStrictPricing_strictEntry hasCompleteTokenPricing_def)
  with inp out show ?thesis
    by (simp add: toModelPricing_fields MILLION_def)
qed

theorem exact_match_converted_witness:
  "fetchModelPricing (catalogFetcher gpt5_catalog neverMatches noFailure) 0 = (Inr gpt5_catalog, 1)
   \<and> gpt5_catalog ''gpt-5'' = Some gpt5_entry
   \<and> input_cost_per_token gpt5_entry = Some (nearest False 125 100000000)
   \<and> output_cost_per_token gpt5_entry = Some (nearest False 1 100000)
   \<and> cache_read_input_token_cost gpt5_entry = Some (nearest False 125 1000000000)
   \<and> getPricing (catalogFetcher gpt5_catalog neverMatches noFailure) ''gpt-5'' 0
     = (Inr \<lparr> inputCostPerMToken = nearest False 5 4, cachedInputCostPerMToken = nearest False 1 8,
              outputCostPerMToken = nearest False 10 1 \<rparr>, 1)"
proof -
  let ?f = "catalogFetcher gpt5_catalog neverMatches noFailure :: (nat, string) LiteLLMPricingFetcher"
  have fetch: "fetchModelPricing ?f 0 = (Inr gpt5_catalog, 1)"
    by (simp add: catalogFetcher_def noFailure_def)
  have entry: "gpt5_catalog ''gpt-5'' = Some gpt5_entry"
    by (simp add: gpt5_catalog_def)
  have inp: "input_cost_per_token gpt5_entry = Some (nearest False 125 100000000)"
    and out: "output_cost_per_token gpt5_entry = Some (nearest False 1 100000)"
    and cache: "cache_read_input_token_cost gpt5_entry = Some (nearest False 125 1000000000)"
    by (simp_all add: gpt5_entry_def noFields_def)
  have products: "jsMul (nearest False 125 100000000) (nearest False 1000000 1) = nearest False 5 4"
    "jsMul (nearest False 1 100000) (nearest False 1000000 1) = nearest False 10 1"
    "jsMul (nearest False 125 1000000000) (nearest False 1000000 1) = nearest False 1 8"
    by (simp_all add: float_eval)
  from exact_match_converted [OF fetch entry inp out]
  obtain r where run: "getPricing ?f ''gpt-5'' 0 = (Inr r, 1)"
    and "inputCostPerMToken r = jsMul (nearest False 125 100000000) (nearest False 1000000 1)"
    and "outputCostPerMToken r = jsMul (nearest False 1 100000) (nearest False 1000000 1)"
    and "\<forall>c. cache_read_input_token_cost gpt5_entry = Some c
           \<longrightarrow> cachedInputCostPerMToken r = jsMul c (nearest False 1000000 1)"
    by blast
  with cache have "inputCostPerMToken r = jsMul (nearest False 125 100000000) (nearest False 1000000 1)"
    and "outputCostPerMToken r = jsMul (nearest False 1 100000) (nearest False 1000000 1)"
    and "cachedInputCostPerMToken r = jsMul (nearest False 125 1000000000) (nearest False 1000000 1)"
    by blast+
  then have "r = \<lparr> inputCostPerMToken = nearest False 5 4, cachedInputCostPerMToken = nearest False 1 8,
              outputCostPerMToken = nearest False 10 1 \<rparr>"
    by (cases r) (simp add: products)
  with run fetch entry inp out cache show ?thesis by simp
qed

text \<open>
  As first stated, C4 asks for the costs multiplied by 1,000,000. For the input cost
  \<open>9e-7\<close> the exact product of the stored number and one million is not a binary64
  number, and the code returns the number just below \<open>0.9\<close> (printed
  \<open>0.8999999999999999\<close>): neither the exact product nor the number \<open>0.9\<close>.
\<close>

theorem exact_product_counterexample:
  "fetchModelPricing (catalogFetcher rounding_catalog neverMatches noFailure) 0
     = (Inr rounding_catalog, 1)
   \<and> rounding_catalog ''gpt-5'' = Some rounding_entry
   \<and> input_cost_per_token rounding_entry = Some (nearest False 9 10000000)
   \<and> output_cost_per_token rounding_entry = Some (nearest False 1 100000)
   \<and> valueOf (nearest False 9 10000000) = Some (8500259669165361 / 2 ^ 73)
   \<and> getPricing (catalogFetcher rounding_catalog neverMatches noFailure) ''gpt-5'' 0
     = (Inr \<lparr> inputCostPerMToken = Finite False 8106479329266892 (- 53),
              cachedInputCostPerMToken = Finite False 8106479329266892 (- 53),
              outputCostPerMToken = nearest False 10 1 \<rparr>, 1)
   \<and> valueOf (Finite False 8106479329266892 (- 53)) = Some (8106479329266892 / 2 ^ 53)
   \<and> (8106479329266892 / 2 ^ 53 :: real) \<noteq> 8500259669165361 / 2 ^ 73 * 1000000
   \<and> (8106479329266892 / 2 ^ 53 :: real) \<noteq> 9 / 10
   \<and> nearest False 9 10 = Finite False 8106479329266893 (- 53)"
proof -
  have "getPricing (catalogFetcher rounding_catalog neverMatches noFailure) ''gpt-5'' 0
     = (Inr \<lparr> inputCostPerMToken = Finite False 8106479329266892 (- 53),
              cachedInputCostPerMToken = Finite False 8106479329266892 (- 53),
              outputCostPerMToken = nearest False 10 1 \<rparr>, 1)"
    by (simp add: getPricing_after_lookup getPricing_lookup_def await_def resolved_def
          getStrictPricing_strictEntry data_defs entry_facts)
  moreover have "fetchModelPricing (catalogFetcher rounding_catalog neverMatches noFailure) 0
     = (Inr rounding_catalog, 1)"
    by (simp add: catalogFetcher_def noFailure_def)
  moreover have "rounding_catalog ''gpt-5'' = Some rounding_entry"
    by (simp add: rounding_catalog_def)
  moreover have "input_cost_per_token rounding_entry = Some (nearest False 9 10000000)"
    "output_cost_per_token rounding_entry = Some (nearest False 1 100000)"
    by (simp_all add: rounding_entry_def noFields_def)
  moreover have "valueOf (nearest False 9 10000000) = Some (8500259669165361 / 2 ^ 73)"
    by (simp add: float_eval)
  moreover have "valueOf (Finite False 8106479329266892 (- 53)) = Some (8106479329266892 / 2 ^ 53)"
    by simp
  moreover have "(8106479329266892 / 2 ^ 53 :: real) \<noteq> 8500259669165361 / 2 ^ 73 * 1000000"
    "(8106479329266892 / 2 ^ 53 :: real) \<noteq> 9 / 10"
    by simp_all
  moreover have "nearest False 9 10 = Finite False 8106479329266893 (- 53)"
    by (simp add: float_eval)
  ultimately show ?thesis by blast
qed

subsection \<open>Cache-cost defaulting\<close>

text \<open>
  C7 (amended). When the entry accepted by the fallback blocks has an input and an
  output cost but no cache-read cost, and the input cost is not \<open>NaN\<close>, \<open>getPricing\<close>
  succeeds, the input cost and the cached-input cost of the returned record are both
  the entry's input cost times \<open>MILLION\<close>, and the two compare equal with \<open>==\<close>.
\<close>

theorem cached_cost_defaults_to_input_cost:
  assumes accepted: "getPricing_lookup fetcher model s = (Inr (Some entry), s')"
    and inp: "input_cost_per_token entry = Some i"
    and out: "output_cost_per_token entry = Some out"
    and no_cache: "cache_read_input_token_cost entry = None"
    and not_nan: "i \<noteq> NaN"
  shows "\<exists>r. getPricing fetcher model s = (Inr r, s')
    \<and> inputCostPerMToken r = jsMul i MILLION
    \<and> cachedInputCostPerMToken r = jsMul i MILLION
    \<and> jsEq (cachedInputCostPerMToken r) (inputCostPerMToken r)"
proof -
  from accepted inp out no_cache
  have "getPricing fetcher model s =
      (Inr \<lparr> inputCostPerMToken = jsMul i MILLION, cachedInputCostPerMToken = jsMul i MILLION,
             outputCostPerMToken = jsMul out MILLION \<rparr>, s')"
    by (simp add: getPricing_after_lookup hasCompleteTokenPricing_def toModelPricing_fields)
  moreover from not_nan have "jsEq (jsMul i MILLION) (jsMul i MILLION)"
    by (intro jsEq_refl jsMul_MILLION_not_NaN)
  ultimately show ?thesis by simp
qed

theorem cached_cost_defaults_to_input_cost_witness:
  "getPricing_lookup (catalogFetcher no_cache_catalog neverMatches noFailure) ''gpt-5.3-codex'' 0
     = (Inr (Some no_cache_entry), 2)
   \<and> input_cost_per_token no_cache_entry = Some (nearest False 15 10000000)
   \<and> output_cost_per_token no_cache_entry = Some (nearest False 12 1000000)
   \<and> cache_read_input_token_cost no_cache_entry = None
   \<and> nearest False 15 10000000 \<noteq> NaN
   \<and> getPricing (catalogFetcher no_cache_catalog neverMatches noFailure) ''gpt-5.3-codex'' 0
     = (Inr \<lparr> inputCostPerMToken = nearest False 3 2, cachedInputCostPerMToken = nearest False 3 2,
              outputCostPerMToken = nearest False 12 1 \<rparr>, 2)
   \<and> jsEq (nearest False 3 2) (nearest False 3 2)"
proof -
  let ?f = "catalogFetcher no_cache_catalog neverMatches noFailure :: (nat, string) LiteLLMPricingFetcher"
  have accepted: "getPricing_lookup ?f ''gpt-5.3-codex'' 0 = (Inr (Some no_cache_entry), 2)"
    by (simp add: getPricing_lookup_def await_def resolved_def getStrictPricing_strictEntry
          relaxed_plain data_defs entry_facts)
  have inp: "input_cost_per_token no_cache_entry = Some (nearest False 15 10000000)"
    and out: "output_cost_per_token no_cache_entry = Some (nearest False 12 1000000)"
    and no_cache: "cache_read_input_token_cost no_cache_entry = None"
    by (simp_all add: no_cache_entry_def noFields_def)
  have not_nan: "nearest False 15 10000000 \<noteq> NaN"
    by (rule nearest_not_NaN)
  have run: "getPricing ?f ''gpt-5.3-codex'' 0
     = (Inr \<lparr> inputCostPerMToken = nearest False 3 2, cachedInputCostPerMToken = nearest False 3 2,
              outputCostPerMToken = nearest False 12 1 \<rparr>, 2)"
    using accepted by (simp add: getPricing_after_lookup entry_facts)
  from cached_cost_defaults_to_input_cost [OF accepted inp out no_cache not_nan] run
  have "jsEq (nearest False 3 2) (nearest False 3 2)"
    by auto
  with accepted inp out no_cache not_nan run show ?thesis by blast
qed

text \<open>
  As first stated, C7 has no condition on the input cost. A cost of \<open>NaN\<close> is not
  \<open>null\<close>, so the entry below passes \<open>hasCompleteTokenPricing\<close>; both costs returned are
  \<open>NaN\<close>, and \<open>NaN == NaN\<close> is false.
\<close>

theorem nan_cost_counterexample:
  "getPricing_lookup (catalogFetcher nan_catalog neverMatches noFailure) ''gpt-5'' 0
     = (Inr (Some nan_entry), 1)
   \<and> input_cost_per_token nan_entry = Some NaN
   \<and> output_cost_per_token nan_entry = Some (nearest False 1 100000)
   \<and> cache_read_input_token_cost nan_entry = None
   \<and> hasCompleteTokenPricing (Some nan_entry)
   \<and> getPricing (catalogFetcher nan_catalog neverMatches noFailure) ''gpt-5'' 0
     = (Inr \<lparr> inputCostPerMToken = NaN, cachedInputCostPerMToken = NaN,
              outputCostPerMToken = nearest False 10 1 \<rparr>, 1)
   \<and> \<not> jsEq NaN NaN"
proof -
  have lookup: "getPricing_lookup (catalogFetcher nan_catalog neverMatches noFailure) ''gpt-5'' 0
     = (Inr (Some nan_entry), 1)"
    by (simp add: getPricing_lookup_def await_def resolved_def getStrictPricing_strictEntry
          data_defs entry_facts)
  then have "getPricing (catalogFetcher nan_catalog neverMatches noFailure) ''gpt-5'' 0
     = (Inr \<lparr> inputCostPerMToken = NaN, cachedInputCostPerMToken = NaN,
              outputCostPerMToken = nearest False 10 1 \<rparr>, 1)"
    by (simp add: getPricing_after_lookup entry_facts)
  moreover have "input_cost_per_token nan_entry = Some NaN"
    "output_cost_per_token nan_entry = Some (nearest False 1 100000)"
    "cache_read_input_token_cost nan_entry = None"
    by (simp_all add: nan_entry_def noFields_def)
  moreover have "hasCompleteTokenPricing (Some nan_entry)"
    by (simp add: entry_facts)
  moreover have "\<not> jsEq NaN NaN"
    by simp
  ultimately show ?thesis using lookup by blast
qed

subsection \<open>No partial results\<close>

text \<open>
  C8. \<open>getPricing\<close> either throws (and never the \<open>TypeError\<close> of a null entry), or
  returns a record all of whose fields are computed from one entry that passed
  \<open>hasCompleteTokenPricing\<close>: the input and output costs of that entry, and its
  cache-read cost or else its input cost, each times \<open>MILLION\<close>. None of the three
  conversions takes the zero default.
\<close>

theorem no_partial_results:
  "(\<exists>x s'. getPricing fetcher model s = (Inl x, s') \<and> x \<noteq> TypeError)
   \<or> (\<exists>entry i out s'.
         getPricing_lookup fetcher model s = (Inr (Some entry), s')
       \<and> hasCompleteTokenPricing (Some entry)
       \<and> input_cost_per_token entry = Some i
       \<and> output_cost_per_token entry = Some out
       \<and> getPricing fetcher model s =
           (Inr \<lparr> inputCostPerMToken = jsMul i MILLION,
                  cachedInputCostPerMToken =
                    jsMul (case cache_read_input_token_cost entry of Some c \<Rightarrow> c | None \<Rightarrow> i) MILLION,
                  outputCostPerMToken = jsMul out MILLION \<rparr>, s')
       \<and> \<not> zeroDefaulted (input_cost_per_token entry) None
       \<and> \<not> zeroDefaulted (cache_read_input_token_cost entry) (input_cost_per_token entry)
       \<and> \<not> zeroDefaulted (output_cost_per_token entry) None)"
proof -
  obtain q s' where l: "getPricing_lookup fetcher model s = (q, s')"
    by (cases "getPricing_lookup fetcher model s")
  show ?thesis
  proof (cases "\<exists>p. q = Inr p \<and> hasCompleteTokenPricing p")
    case True
    then obtain entry where q: "q = Inr (Some entry)" and c: "hasCompleteTokenPricing (Some entry)"
      using complete_is_Some by blast
    from c obtain i out where io: "input_cost_per_token entry = Some i" "output_cost_per_token entry = Some out"
      by (auto simp: hasCompleteTokenPricing_def)
    with l q c have "getPricing fetcher model s =
           (Inr \<lparr> inputCostPerMToken = jsMul i MILLION,
                  cachedInputCostPerMToken =
                    jsMul (case cache_read_input_token_cost entry of Some c \<Rightarrow> c | None \<Rightarrow> i) MILLION,
                  outputCostPerMToken = jsMul out MILLION \<rparr>, s')"
      by (simp add: getPricing_after_lookup toModelPricing_fields)
    with l q c io show ?thesis
      by (auto simp: zeroDefaulted_def)
  next
    case False
    with l have "\<exists>x. getPricing fetcher model s = (Inl x, s') \<and> x \<noteq> TypeError"
      by (cases q) (auto simp: getPricing_after_lookup getPricing_lookup_def await_def resolved_def
            getStrictPricing_strictEntry relaxed_plain
          split: prod.splits sum.splits option.splits if_splits)
    then show ?thesis by blast
  qed
qed

theorem no_partial_results_witness:
  "getPricing (catalogFetcher gpt5_catalog neverMatches noFailure) ''gpt-5-codex'' 0
     = (Inr \<lparr> inputCostPerMToken = nearest False 5 4, cachedInputCostPerMToken = nearest False 1 8,
              outputCostPerMToken = nearest False 10 1 \<rparr>, 2)
   \<and> getPricing_lookup (catalogFetcher gpt5_catalog neverMatches noFailure) ''gpt-5-codex'' 0
     = (Inr (Some gpt5_entry), 2)
   \<and> hasCompleteTokenPricing (Some gpt5_entry)
   \<and> \<not> zeroDefaulted (input_cost_per_token gpt5_entry) None
   \<and> \<not> zeroDefaulted (cache_read_input_token_cost gpt5_entry) (input_cost_per_token gpt5_entry)
   \<and> \<not> zeroDefaulted (output_cost_per_token gpt5_entry) None
   \<and> getPricing (catalogFetcher limits_catalog neverMatches noFailure) ''gpt-4'' 0
     = (Inl (Error ''Pricing not found for model gpt-4'' :: string thrown), 2)"
proof -
  let ?f = "catalogFetcher gpt5_catalog neverMatches noFailure :: (nat, string) LiteLLMPricingFetcher"
  let ?g = "catalogFetcher limits_catalog neverMatches noFailure :: (nat, string) LiteLLMPricingFetcher"
  have lookup: "getPricing_lookup ?f ''gpt-5-codex'' 0 = (Inr (Some gpt5_entry), 2)"
    by (simp add: getPricing_lookup_def await_def resolved_def getStrictPricing_strictEntry
          relaxed_plain data_defs entry_facts)
  have run: "getPricing ?f ''gpt-5-codex'' 0
     = (Inr \<lparr> inputCostPerMToken = nearest False 5 4, cachedInputCostPerMToken = nearest False 1 8,
              outputCostPerMToken = nearest False 10 1 \<rparr>, 2)"
    using lookup by (simp add: getPricing_after_lookup data_defs entry_facts)
  from no_partial_results [of ?f "''gpt-5-codex''" 0] run lookup
  have accepted: "hasCompleteTokenPricing (Some gpt5_entry)
    \<and> \<not> zeroDefaulted (input_cost_per_token gpt5_entry) None
    \<and> \<not> zeroDefaulted (cache_read_input_token_cost gpt5_entry) (input_cost_per_token gpt5_entry)
    \<and> \<not> zeroDefaulted (output_cost_per_token gpt5_entry) None"
    by auto
  have failing: "getPricing ?g ''gpt-4'' 0
     = (Inl (Error ''Pricing not found for model gpt-4''), 2)"
    by (simp add: getPricing_after_lookup getPricing_lookup_def await_def resolved_def
          getStrictPricing_strictEntry relaxed_plain data_defs entry_facts)
  from run lookup accepted failing show ?thesis by blast
qed

subsection \<open>Alias fallback\<close>

text \<open>
  C2. Suppose the strict lookup of the model succeeds with a result that is not
  complete, the model has an alias, and the strict lookup of the alias succeeds. If the
  alias entry is complete, it is the one converted and returned (its costs, each times
  \<open>MILLION\<close>), and the accessor has been asked for the batch map twice and nothing else. If it is not complete, the third
  accessor call is the relaxed lookup of the alias, and when that yields a complete
  entry, that entry is converted and returned after exactly these three calls.
\<close>

theorem alias_fallback_adopted:
  assumes first: "getStrictPricing fetcher model s = (Inr pricing, s1)"
    and inc: "\<not> hasCompleteTokenPricing pricing"
    and aka: "CODEX_MODEL_ALIASES_MAP model = Some aliasName"
    and second: "getStrictPricing fetcher aliasName s1 = (Inr aliasStrict, s2)"
  shows "(hasCompleteTokenPricing aliasStrict \<longrightarrow>
            (\<exists>entry. aliasStrict = Some entry
               \<and> getPricing fetcher model s = (Inr (toModelPricing entry), s2)
               \<and> (\<exists>i out. input_cost_per_token entry = Some i
                     \<and> output_cost_per_token entry = Some out
                     \<and> toModelPricing entry =
                         \<lparr> inputCostPerMToken = jsMul i MILLION,
                           cachedInputCostPerMToken =
                             jsMul (case cache_read_input_token_cost entry of
                                      Some c \<Rightarrow> c | None \<Rightarrow> i) MILLION,
                           outputCostPerMToken = jsMul out MILLION \<rparr>))
          \<and> map call_of (snd (snd (getPricing (traced fetcher) model (s, []))))
              = [FetchModelPricing, FetchModelPricing])
    \<and> (\<not> hasCompleteTokenPricing aliasStrict \<longrightarrow>
            take 3 (map call_of (snd (snd (getPricing (traced fetcher) model (s, [])))))
              = [FetchModelPricing, FetchModelPricing, GetModelPricing aliasName]
          \<and> (\<forall>aliasRelaxed s3.
                getRelaxedPricing fetcher aliasName s2 = (Inr aliasRelaxed, s3)
                  \<and> hasCompleteTokenPricing aliasRelaxed \<longrightarrow>
                (\<exists>entry. aliasRelaxed = Some entry
                   \<and> getPricing fetcher model s = (Inr (toModelPricing entry), s3)
                   \<and> (\<exists>i out. input_cost_per_token entry = Some i
                     \<and> output_cost_per_token entry = Some out
                     \<and> toModelPricing entry =
                         \<lparr> inputCostPerMToken = jsMul i MILLION,
                           cachedInputCostPerMToken =
                             jsMul (case cache_read_input_token_cost entry of
                                      Some c \<Rightarrow> c | None \<Rightarrow> i) MILLION,
                           outputCostPerMToken = jsMul out MILLION \<rparr>))
                \<and> map call_of (snd (snd (getPricing (traced fetcher) model (s, []))))
                    = [FetchModelPricing, FetchModelPricing, GetModelPricing aliasName]))"
proof -
  from first obtain c1 where f1: "fetchModelPricing fetcher s = (Inr c1, s1)"
    and p1: "strictEntry c1 model = pricing"
    by (rule strict_result)
  from second obtain c2 where f2: "fetchModelPricing fetcher s1 = (Inr c2, s2)"
    and p2: "strictEntry c2 aliasName = aliasStrict"
    by (rule strict_result)
  note defs = getPricing_after_lookup getPricing_lookup_def await_def resolved_def
    getStrictPricing_strictEntry relaxed_plain fetch_traced get_traced
  have hit: "(\<exists>entry. aliasStrict = Some entry
               \<and> getPricing fetcher model s = (Inr (toModelPricing entry), s2)
               \<and> (\<exists>i out. input_cost_per_token entry = Some i
                     \<and> output_cost_per_token entry = Some out
                     \<and> toModelPricing entry =
                         \<lparr> inputCostPerMToken = jsMul i MILLION,
                           cachedInputCostPerMToken =
                             jsMul (case cache_read_input_token_cost entry of
                                      Some c \<Rightarrow> c | None \<Rightarrow> i) MILLION,
                           outputCostPerMToken = jsMul out MILLION \<rparr>))
          \<and> map call_of (snd (snd (getPricing (traced fetcher) model (s, []))))
              = [FetchModelPricing, FetchModelPricing]"
    if c: "hasCompleteTokenPricing aliasStrict"
  proof -
    from c obtain entry where e: "aliasStrict = Some entry"
      using complete_is_Some by blast
    from c e have "hasCompleteTokenPricing (Some entry)"
      by simp
    then have "\<exists>i out. input_cost_per_token entry = Some i
        \<and> output_cost_per_token entry = Some out
        \<and> toModelPricing entry =
            \<lparr> inputCostPerMToken = jsMul i MILLION,
              cachedInputCostPerMToken =
                jsMul (case cache_read_input_token_cost entry of
                         Some c \<Rightarrow> c | None \<Rightarrow> i) MILLION,
              outputCostPerMToken = jsMul out MILLION \<rparr>"
      by (rule complete_prices)
    with c e f1 f2 p1 p2 inc aka show ?thesis
      by (simp add: defs)
  qed
  have miss: "take 3 (map call_of (snd (snd (getPricing (traced fetcher) model (s, [])))))
              = [FetchModelPricing, FetchModelPricing, GetModelPricing aliasName]"
    if c: "\<not> hasCompleteTokenPricing aliasStrict"
    using c f1 f2 p1 p2 inc aka
    by (simp add: defs split: prod.splits sum.splits)
  have relaxed: "(\<exists>entry. aliasRelaxed = Some entry
                   \<and> getPricing fetcher model s = (Inr (toModelPricing entry), s3)
                   \<and> (\<exists>i out. input_cost_per_token entry = Some i
                     \<and> output_cost_per_token entry = Some out
                     \<and> toModelPricing entry =
                         \<lparr> inputCostPerMToken = jsMul i MILLION,
                           cachedInputCostPerMToken =
                             jsMul (case cache_read_input_token_cost entry of
                                      Some c \<Rightarrow> c | None \<Rightarrow> i) MILLION,
                           outputCostPerMToken = jsMul out MILLION \<rparr>))
                \<and> map call_of (snd (snd (getPricing (traced fetcher) model (s, []))))
                    = [FetchModelPricing, FetchModelPricing, GetModelPricing aliasName]"
    if c: "\<not> hasCompleteTokenPricing aliasStrict"
      and r: "getRelaxedPricing fetcher aliasName s2 = (Inr aliasRelaxed, s3)"
      and c3: "hasCompleteTokenPricing aliasRelaxed"
    for aliasRelaxed s3
  proof -
    from r have f3: "getModelPricing fetcher aliasName s2 = (Inr aliasRelaxed, s3)"
      by (rule relaxed_result)
    from c3 obtain entry where e: "aliasRelaxed = Some entry"
      using complete_is_Some by blast
    from c3 e have "hasCompleteTokenPricing (Some entry)"
      by simp
    then have "\<exists>i out. input_cost_per_token entry = Some i
        \<and> output_cost_per_token entry = Some out
        \<and> toModelPricing entry =
            \<lparr> inputCostPerMToken = jsMul i MILLION,
              cachedInputCostPerMToken =
                jsMul (case cache_read_input_token_cost entry of
                         Some c \<Rightarrow> c | None \<Rightarrow> i) MILLION,
              outputCostPerMToken = jsMul out MILLION \<rparr>"
      by (rule complete_prices)
    with c c3 e f1 f2 f3 p1 p2 inc aka show ?thesis
      by (simp add: defs)
  qed
  from hit miss relaxed show ?thesis by blast
qed

theorem alias_fallback_adopted_witness:
  "getStrictPricing (catalogFetcher limits_catalog neverMatches noFailure) ''gpt-5.3-codex'' 0
     = (Inr (Some limits_only_entry), 1)
   \<and> \<not> hasCompleteTokenPricing (Some limits_only_entry)
   \<and> CODEX_MODEL_ALIASES_MAP ''gpt-5.3-codex'' = Some ''gpt-5.2-codex''
   \<and> getStrictPricing (catalogFetcher limits_catalog neverMatches noFailure) ''gpt-5.2-codex'' 1
     = (Inr (Some gpt52_codex_entry), 2)
   \<and> hasCompleteTokenPricing (Some gpt52_codex_entry)
   \<and> getPricing (catalogFetcher limits_catalog neverMatches noFailure) ''gpt-5.3-codex'' 0
     = (Inr \<lparr> inputCostPerMToken = nearest False 3 2, cachedInputCostPerMToken = nearest False 3 20,
              outputCostPerMToken = nearest False 12 1 \<rparr>, 2)
   \<and> getStrictPricing (catalogFetcher empty_catalog matchesAlias noFailure) ''gpt-5.3-codex'' 0
     = (Inr None, 1)
   \<and> getStrictPricing (catalogFetcher empty_catalog matchesAlias noFailure) ''gpt-5.2-codex'' 1
     = (Inr None, 2)
   \<and> getRelaxedPricing (catalogFetcher empty_catalog matchesAlias noFailure) ''gpt-5.2-codex'' 2
     = (Inr (Some gpt52_codex_entry), 3)
   \<and> getPricing (catalogFetcher empty_catalog matchesAlias noFailure) ''gpt-5.3-codex'' 0
     = (Inr \<lparr> inputCostPerMToken = nearest False 3 2, cachedInputCostPerMToken = nearest False 3 20,
              outputCostPerMToken = nearest False 12 1 \<rparr>, 3)"
proof -
  let ?f = "catalogFetcher limits_catalog neverMatches noFailure :: (nat, string) LiteLLMPricingFetcher"
  let ?g = "catalogFetcher empty_catalog matchesAlias noFailure :: (nat, string) LiteLLMPricingFetcher"
  have first: "getStrictPricing ?f ''gpt-5.3-codex'' 0 = (Inr (Some limits_only_entry), 1)"
    and second: "getStrictPricing ?f ''gpt-5.2-codex'' 1 = (Inr (Some gpt52_codex_entry), 2)"
    by (simp_all add: getStrictPricing_strictEntry catalogFetcher_def noFailure_def limits_catalog_def
          strictEntry_def candidateKeys_def)
  have inc: "\<not> hasCompleteTokenPricing (Some limits_only_entry)"
    and complete: "hasCompleteTokenPricing (Some gpt52_codex_entry)"
    by (simp_all add: entry_facts)
  have aka: "CODEX_MODEL_ALIASES_MAP ''gpt-5.3-codex'' = Some ''gpt-5.2-codex''"
    by (simp add: CODEX_MODEL_ALIASES_MAP_def)
  have converted: "toModelPricing gpt52_codex_entry
     = \<lparr> inputCostPerMToken = nearest False 3 2, cachedInputCostPerMToken = nearest False 3 20,
         outputCostPerMToken = nearest False 12 1 \<rparr>"
    by (rule gpt52_codex_prices)
  from alias_fallback_adopted [OF first inc aka second] complete converted
  have strict_case: "getPricing ?f ''gpt-5.3-codex'' 0
     = (Inr \<lparr> inputCostPerMToken = nearest False 3 2, cachedInputCostPerMToken = nearest False 3 20,
              outputCostPerMToken = nearest False 12 1 \<rparr>, 2)"
    by auto
  have first': "getStrictPricing ?g ''gpt-5.3-codex'' 0 = (Inr None, 1)"
    and second': "getStrictPricing ?g ''gpt-5.2-codex'' 1 = (Inr None, 2)"
    by (simp_all add: getStrictPricing_strictEntry catalogFetcher_def noFailure_def empty_catalog_def
          strictEntry_def candidateKeys_def)
  have third': "getRelaxedPricing ?g ''gpt-5.2-codex'' 2 = (Inr (Some gpt52_codex_entry), 3)"
    by (simp add: relaxed_plain catalogFetcher_def noFailure_def matchesAlias_def)
  have inc': "\<not> hasCompleteTokenPricing None"
    by (simp add: hasCompleteTokenPricing_def)
  from alias_fallback_adopted [OF first' inc' aka second'] inc' third' complete converted
  have relaxed_case: "getPricing ?g ''gpt-5.3-codex'' 0
     = (Inr \<lparr> inputCostPerMToken = nearest False 3 2, cachedInputCostPerMToken = nearest False 3 20,
              outputCostPerMToken = nearest False 12 1 \<rparr>, 3)"
    by auto
  from first second inc complete aka strict_case first' second' third' relaxed_case
  show ?thesis by blast
qed

subsection \<open>The alias of gpt-5-codex\<close>

text \<open>
  C10 (amended). The alias table maps \<open>gpt-5-codex\<close> to \<open>gpt-5\<close> and \<open>gpt-5.3-codex\<close> to
  \<open>gpt-5.2-codex\<close>. When the strict lookup of \<open>gpt-5-codex\<close> (the bare key, then the
  provider-prefixed keys, the first existing key deciding) yields no complete entry, as
  it does when none of these keys exists, and the next batch query returns a catalog
  with a complete entry under \<open>gpt-5\<close>, then \<open>getPricing\<close> of \<open>gpt-5-codex\<close> succeeds with
  that entry's costs, each times the number 1000000. (An accessor may answer each batch
  query with another catalog; a fixed catalog is the case where both are the same.)
\<close>

theorem codex_alias_fallback:
  assumes first: "getStrictPricing fetcher ''gpt-5-codex'' s = (Inr pricing, s1)"
    and inc: "\<not> hasCompleteTokenPricing pricing"
    and second: "fetchModelPricing fetcher s1 = (Inr catalog2, s2)"
    and entry: "catalog2 ''gpt-5'' = Some entry"
    and inp: "input_cost_per_token entry = Some i"
    and out: "output_cost_per_token entry = Some out"
  shows "CODEX_MODEL_ALIASES_MAP ''gpt-5-codex'' = Some ''gpt-5''
    \<and> CODEX_MODEL_ALIASES_MAP ''gpt-5.3-codex'' = Some ''gpt-5.2-codex''
    \<and> getPricing fetcher ''gpt-5-codex'' s =
        (Inr \<lparr> inputCostPerMToken = jsMul i (nearest False 1000000 1),
               cachedInputCostPerMToken =
                 jsMul (case cache_read_input_token_cost entry of Some c \<Rightarrow> c | None \<Rightarrow> i)
                   (nearest False 1000000 1),
               outputCostPerMToken = jsMul out (nearest False 1000000 1) \<rparr>, s2)"
proof -
  have aliases: "CODEX_MODEL_ALIASES_MAP ''gpt-5-codex'' = Some ''gpt-5''"
    "CODEX_MODEL_ALIASES_MAP ''gpt-5.3-codex'' = Some ''gpt-5.2-codex''"
    by (simp_all add: CODEX_MODEL_ALIASES_MAP_def)
  from first obtain catalog1 where f1: "fetchModelPricing fetcher s = (Inr catalog1, s1)"
    and p1: "strictEntry catalog1 ''gpt-5-codex'' = pricing"
    by (rule strict_result)
  from entry have hit: "strictEntry catalog2 ''gpt-5'' = Some entry"
    by (rule strictEntry_bare)
  from f1 p1 inc second hit aliases inp out
  have "getPricing fetcher ''gpt-5-codex'' s = (Inr (toModelPricing entry), s2)"
    by (simp add: getPricing_after_lookup getPricing_lookup_def await_def resolved_def
          getStrictPricing_strictEntry hasCompleteTokenPricing_def)
  with inp out aliases show ?thesis
    by (simp add: toModelPricing_fields MILLION_def)
qed

theorem codex_alias_fallback_witness:
  "getStrictPricing (catalogFetcher gpt5_catalog neverMatches noFailure) ''gpt-5-codex'' 0
     = (Inr None, 1)
   \<and> \<not> hasCompleteTokenPricing None
   \<and> fetchModelPricing (catalogFetcher gpt5_catalog neverMatches noFailure) 1 = (Inr gpt5_catalog, 2)
   \<and> gpt5_catalog ''gpt-5'' = Some gpt5_entry
   \<and> getPricing (catalogFetcher gpt5_catalog neverMatches noFailure) ''gpt-5-codex'' 0
     = (Inr \<lparr> inputCostPerMToken = nearest False 5 4, cachedInputCostPerMToken = nearest False 1 8,
              outputCostPerMToken = nearest False 10 1 \<rparr>, 2)
   \<and> getStrictPricing (catalogFetcher prefixed_limits_catalog neverMatches noFailure) ''gpt-5-codex'' 0
     = (Inr (Some limits_only_entry), 1)
   \<and> \<not> hasCompleteTokenPricing (Some limits_only_entry)
   \<and> fetchModelPricing (catalogFetcher prefixed_limits_catalog neverMatches noFailure) 1
     = (Inr prefixed_limits_catalog, 2)
   \<and> prefixed_limits_catalog ''gpt-5'' = Some gpt5_entry
   \<and> getPricing (catalogFetcher prefixed_limits_catalog neverMatches noFailure) ''gpt-5-codex'' 0
     = (Inr \<lparr> inputCostPerMToken = nearest False 5 4, cachedInputCostPerMToken = nearest False 1 8,
              outputCostPerMToken = nearest False 10 1 \<rparr>, 2)"
proof -
  let ?f = "catalogFetcher gpt5_catalog neverMatches noFailure :: (nat, string) LiteLLMPricingFetcher"
  let ?g = "catalogFetcher prefixed_limits_catalog neverMatches noFailure :: (nat, string) LiteLLMPricingFetcher"
  have first: "getStrictPricing ?f ''gpt-5-codex'' 0 = (Inr None, 1)"
    and first': "getStrictPricing ?g ''gpt-5-codex'' 0 = (Inr (Some limits_only_entry), 1)"
    by (simp_all add: getStrictPricing_strictEntry data_defs)
  have second: "fetchModelPricing ?f 1 = (Inr gpt5_catalog, 2)"
    and second': "fetchModelPricing ?g 1 = (Inr prefixed_limits_catalog, 2)"
    by (simp_all add: catalogFetcher_def noFailure_def)
  have inc: "\<not> hasCompleteTokenPricing None"
    and inc': "\<not> hasCompleteTokenPricing (Some limits_only_entry)"
    by (simp_all add: entry_facts)
  have entry: "gpt5_catalog ''gpt-5'' = Some gpt5_entry"
    and entry': "prefixed_limits_catalog ''gpt-5'' = Some gpt5_entry"
    by (simp_all add: gpt5_catalog_def prefixed_limits_catalog_def)
  have inp: "input_cost_per_token gpt5_entry = Some (nearest False 125 100000000)"
    and out: "output_cost_per_token gpt5_entry = Some (nearest False 1 100000)"
    and cache: "cache_read_input_token_cost gpt5_entry = Some (nearest False 125 1000000000)"
    by (simp_all add: gpt5_entry_def noFields_def)
  have products: "jsMul (nearest False 125 100000000) (nearest False 1000000 1) = nearest False 5 4"
    "jsMul (nearest False 1 100000) (nearest False 1000000 1) = nearest False 10 1"
    "jsMul (nearest False 125 1000000000) (nearest False 1000000 1) = nearest False 1 8"
    by (simp_all add: float_eval)
  from codex_alias_fallback [OF first inc second entry inp out]
  have bare: "getPricing ?f ''gpt-5-codex'' 0
     = (Inr \<lparr> inputCostPerMToken = nearest False 5 4, cachedInputCostPerMToken = nearest False 1 8,
              outputCostPerMToken = nearest False 10 1 \<rparr>, 2)"
    by (simp add: cache products)
  from codex_alias_fallback [OF first' inc' second' entry' inp out]
  have prefixed: "getPricing ?g ''gpt-5-codex'' 0
     = (Inr \<lparr> inputCostPerMToken = nearest False 5 4, cachedInputCostPerMToken = nearest False 1 8,
              outputCostPerMToken = nearest False 10 1 \<rparr>, 2)"
    by (simp add: cache products)
  from first inc second entry bare first' inc' second' entry' prefixed
  show ?thesis by blast
qed

text \<open>
  The claim C10 as first stated asks only that the catalog has no entry for
  \<open>gpt-5-codex\<close>. In the catalog below the key \<open>gpt-5-codex\<close> is absent and \<open>gpt-5\<close> is
  complete, but \<open>openai/gpt-5-codex\<close> exists and is complete: the strict lookup finds it
  through the provider prefix and the alias is never consulted, so the costs returned
  are not those of \<open>gpt-5\<close>.
\<close>

theorem codex_alias_counterexample:
  "prefixed_codex_catalog ''gpt-5-codex'' = None
   \<and> prefixed_codex_catalog ''gpt-5'' = Some gpt5_entry
   \<and> hasCompleteTokenPricing (Some gpt5_entry)
   \<and> fetchModelPricing (catalogFetcher prefixed_codex_catalog neverMatches noFailure) 0
     = (Inr prefixed_codex_catalog, 1)
   \<and> getPricing (catalogFetcher prefixed_codex_catalog neverMatches noFailure) ''gpt-5-codex'' 0
     = (Inr \<lparr> inputCostPerMToken = nearest False 3 2, cachedInputCostPerMToken = nearest False 3 20,
              outputCostPerMToken = nearest False 12 1 \<rparr>, 1)
   \<and> toModelPricing gpt5_entry
     = \<lparr> inputCostPerMToken = nearest False 5 4, cachedInputCostPerMToken = nearest False 1 8,
         outputCostPerMToken = nearest False 10 1 \<rparr>
   \<and> nearest False 3 2 \<noteq> nearest False 5 4
   \<and> getPricing (catalogFetcher prefixed_codex_catalog neverMatches noFailure) ''gpt-5-codex'' 0
     \<noteq> (Inr (toModelPricing gpt5_entry), 1)"
proof -
  have run: "getPricing (catalogFetcher prefixed_codex_catalog neverMatches noFailure) ''gpt-5-codex'' 0
     = (Inr \<lparr> inputCostPerMToken = nearest False 3 2, cachedInputCostPerMToken = nearest False 3 20,
              outputCostPerMToken = nearest False 12 1 \<rparr>, 1)"
    by (simp add: getPricing_after_lookup getPricing_lookup_def await_def resolved_def
          getStrictPricing_strictEntry data_defs entry_facts)
  have differ: "nearest False 3 2 \<noteq> nearest False 5 4"
    by (simp add: float_eval)
  have keys: "prefixed_codex_catalog ''gpt-5-codex'' = None"
    "prefixed_codex_catalog ''gpt-5'' = Some gpt5_entry"
    by (simp_all add: prefixed_codex_catalog_def)
  have fetch: "fetchModelPricing (catalogFetcher prefixed_codex_catalog neverMatches noFailure) 0
     = (Inr prefixed_codex_catalog, 1)"
    by (simp add: catalogFetcher_def noFailure_def)
  from run differ
  have "getPricing (catalogFetcher prefixed_codex_catalog neverMatches noFailure) ''gpt-5-codex'' 0
     \<noteq> (Inr (toModelPricing gpt5_entry), 1)"
    by (simp add: gpt5_prices)
  with run differ keys fetch complete_entries(1) gpt5_prices show ?thesis by blast
qed

subsection \<open>The tie-break rule\<close>

text \<open>
  C1. Run the fallback blocks of \<open>getPricing\<close> on an observed accessor, and let \<open>evs\<close>
  be the calls made and \<open>r\<close> the final value of \<open>pricing\<close>. Then:
  \<^item> at least one call is made, and the calls are an initial part of the calls of the
    avenues in their order: strict on the model, strict on the alias, relaxed on the
    alias, relaxed on the model (without an alias: strict, then relaxed on the model);
  \<^item> when some avenue yields a complete entry, that entry is the final value and no
    later call is made; in particular a complete entry from an alias avenue means that
    the relaxed lookup of the original name is not performed;
  \<^item> a final value that is not complete is the result of the first strict lookup: no
    incomplete or missing later result has replaced it;
  \<^item> the calls stop before the last avenue only after a failure or a complete entry;
  \<^item> a complete final value is what \<open>getPricing\<close> converts and returns.
\<close>

theorem tie_break_rule:
  assumes run: "getPricing_lookup (traced fetcher) model (s, []) = (r, (s', evs))"
  shows "evs \<noteq> [] \<and> prefix (map call_of evs) (map call_for (avenues model))
    \<and> (\<forall>i < length evs. \<forall>found.
          outcome (avenues model ! i) (evs ! i) = Inr found \<and> hasCompleteTokenPricing found
            \<longrightarrow> r = Inr found \<and> Suc i = length evs
                \<and> (0 < i \<and> Suc i < length (avenues model)
                      \<longrightarrow> GetModelPricing model \<notin> set (map call_of evs)))
    \<and> (\<forall>final. r = Inr final \<and> \<not> hasCompleteTokenPricing final
            \<longrightarrow> outcome (Strict model) (evs ! 0) = Inr final)
    \<and> (length evs < length (avenues model)
            \<longrightarrow> isl (outcome (avenues model ! (length evs - 1)) (last evs))
               \<or> (\<exists>found. outcome (avenues model ! (length evs - 1)) (last evs) = Inr found
                     \<and> hasCompleteTokenPricing found))
    \<and> (\<forall>entry. r = Inr (Some entry) \<and> hasCompleteTokenPricing (Some entry)
            \<longrightarrow> getPricing (traced fetcher) model (s, []) = (Inr (toModelPricing entry), (s', evs)))"
proof -
  have public: "\<forall>entry. r = Inr (Some entry) \<and> hasCompleteTokenPricing (Some entry)
            \<longrightarrow> getPricing (traced fetcher) model (s, []) = (Inr (toModelPricing entry), (s', evs))"
    using run by (simp add: getPricing_after_lookup)
  from run have "evs \<noteq> [] \<and> prefix (map call_of evs) (map call_for (avenues model))
    \<and> (\<forall>i < length evs. \<forall>found.
          outcome (avenues model ! i) (evs ! i) = Inr found \<and> hasCompleteTokenPricing found
            \<longrightarrow> r = Inr found \<and> Suc i = length evs
                \<and> (0 < i \<and> Suc i < length (avenues model)
                      \<longrightarrow> GetModelPricing model \<notin> set (map call_of evs)))
    \<and> (\<forall>final. r = Inr final \<and> \<not> hasCompleteTokenPricing final
            \<longrightarrow> outcome (Strict model) (evs ! 0) = Inr final)
    \<and> (length evs < length (avenues model)
            \<longrightarrow> isl (outcome (avenues model ! (length evs - 1)) (last evs))
               \<or> (\<exists>found. outcome (avenues model ! (length evs - 1)) (last evs) = Inr found
                     \<and> hasCompleteTokenPricing found))"
    by (cases rule: lookup_traced_paths)
       (auto simp: avenues_def less_Suc_eq nth_Cons' dest: alias_differs)
  with public show ?thesis
    by (elim conjE, intro conjI) assumption+
qed

theorem tie_break_rule_witness:
  "getPricing_lookup (traced (catalogFetcher limits_catalog neverMatches noFailure)) ''gpt-5.3-codex'' (0, [])
     = (Inr (Some gpt52_codex_entry), (2, [FetchedAll (Inr limits_catalog), FetchedAll (Inr limits_catalog)]))
   \<and> map call_for (avenues ''gpt-5.3-codex'')
     = [FetchModelPricing, FetchModelPricing, GetModelPricing ''gpt-5.2-codex'',
        GetModelPricing ''gpt-5.3-codex'']
   \<and> outcome (avenues ''gpt-5.3-codex'' ! 1)
        ([FetchedAll (Inr limits_catalog), FetchedAll (Inr limits_catalog) :: string event] ! 1)
     = Inr (Some gpt52_codex_entry)
   \<and> hasCompleteTokenPricing (Some gpt52_codex_entry)
   \<and> prefix (map call_of [FetchedAll (Inr limits_catalog), FetchedAll (Inr limits_catalog) :: string event])
        (map call_for (avenues ''gpt-5.3-codex''))
   \<and> GetModelPricing ''gpt-5.3-codex''
        \<notin> set (map call_of [FetchedAll (Inr limits_catalog), FetchedAll (Inr limits_catalog) :: string event])"
proof -
  let ?evs = "[FetchedAll (Inr limits_catalog), FetchedAll (Inr limits_catalog)] :: string event list"
  have run: "getPricing_lookup (traced (catalogFetcher limits_catalog neverMatches noFailure)) ''gpt-5.3-codex'' (0, [])
     = (Inr (Some gpt52_codex_entry), (2, ?evs))"
    by (simp add: getPricing_lookup_def await_def resolved_def strict_traced relaxed_traced data_defs entry_facts)
  have plan: "map call_for (avenues ''gpt-5.3-codex'')
     = [FetchModelPricing, FetchModelPricing, GetModelPricing ''gpt-5.2-codex'',
        GetModelPricing ''gpt-5.3-codex'']"
    by (simp add: avenues_def CODEX_MODEL_ALIASES_MAP_def)
  have found: "outcome (avenues ''gpt-5.3-codex'' ! 1) (?evs ! 1) = Inr (Some gpt52_codex_entry)"
    by (simp add: data_defs entry_facts)
  have complete: "hasCompleteTokenPricing (Some gpt52_codex_entry)"
    by (simp add: data_defs entry_facts)
  have step: "1 < length ?evs" "0 < (1::nat)" "Suc 1 < length (avenues ''gpt-5.3-codex'')"
    by (simp_all add: avenues_def CODEX_MODEL_ALIASES_MAP_def)
  note rule = tie_break_rule [OF run]
  from rule have order: "prefix (map call_of ?evs) (map call_for (avenues ''gpt-5.3-codex''))"
    by blast
  from rule have "\<forall>i < length ?evs. \<forall>found.
          outcome (avenues ''gpt-5.3-codex'' ! i) (?evs ! i) = Inr found \<and> hasCompleteTokenPricing found
            \<longrightarrow> Inr (Some gpt52_codex_entry) = (Inr found :: string thrown + LiteLLMModelPricing option)
                \<and> Suc i = length ?evs
                \<and> (0 < i \<and> Suc i < length (avenues ''gpt-5.3-codex'')
                      \<longrightarrow> GetModelPricing ''gpt-5.3-codex'' \<notin> set (map call_of ?evs))"
    by blast
  with found complete step
  have skipped: "GetModelPricing ''gpt-5.3-codex'' \<notin> set (map call_of ?evs)"
    by blast
  from run plan found complete order skipped show ?thesis
    by blast
qed

subsection \<open>Pricing not found\<close>

text \<open>
  C5. When every avenue that \<open>getPricing\<close> attempts returns without failure a result
  that is not complete, all avenues have been attempted and \<open>getPricing\<close> throws the
  error whose message is \<open>Pricing not found for model\<close> followed by the requested model
  name (never the alias).
\<close>

theorem not_found_names_requested_model:
  assumes run: "getPricing (traced fetcher) model (s, []) = (r, (s', evs))"
    and none: "\<forall>i < length evs. \<exists>found.
                 outcome (avenues model ! i) (evs ! i) = Inr found \<and> \<not> hasCompleteTokenPricing found"
  shows "r = Inl (Error (''Pricing not found for model '' @ model))
    \<and> map call_of evs = map call_for (avenues model)
    \<and> getPricing fetcher model s = (r, s')"
proof -
  from run obtain q where l: "getPricing_lookup (traced fetcher) model (s, []) = (q, (s', evs))"
    and r: "r = (case q of
                Inl x \<Rightarrow> Inl x
              | Inr p \<Rightarrow>
                  (if hasCompleteTokenPricing p then Inr (toModelPricing (the p))
                   else Inl (Error (''Pricing not found for model '' @ model))))"
    by (rule getPricing_traced_lookup)
  from l none have "r = Inl (Error (''Pricing not found for model '' @ model))
    \<and> map call_of evs = map call_for (avenues model)"
    by (cases rule: lookup_traced_paths)
       (auto simp: r avenues_def less_Suc_eq nth_Cons')
  with getPricing_traced_agrees [OF run] show ?thesis by simp
qed

theorem not_found_names_requested_model_witness:
  "getPricing (traced (catalogFetcher empty_catalog neverMatches noFailure)) ''gpt-5.3-codex'' (0, [])
     = (Inl (Error ''Pricing not found for model gpt-5.3-codex''),
        (4, [FetchedAll (Inr empty_catalog), FetchedAll (Inr empty_catalog),
             FetchedOne ''gpt-5.2-codex'' (Inr None), FetchedOne ''gpt-5.3-codex'' (Inr None)]))
   \<and> getPricing (catalogFetcher empty_catalog neverMatches noFailure) ''gpt-5.3-codex'' 0
     = (Inl (Error ''Pricing not found for model gpt-5.3-codex'' :: string thrown), 4)"
proof -
  let ?evs = "[FetchedAll (Inr empty_catalog), FetchedAll (Inr empty_catalog),
             FetchedOne ''gpt-5.2-codex'' (Inr None), FetchedOne ''gpt-5.3-codex'' (Inr None)] :: string event list"
  have run: "getPricing (traced (catalogFetcher empty_catalog neverMatches noFailure)) ''gpt-5.3-codex'' (0, [])
     = (Inl (Error ''Pricing not found for model gpt-5.3-codex''), (4, ?evs))"
    by (simp add: getPricing_after_lookup getPricing_lookup_def await_def resolved_def
          strict_traced relaxed_traced data_defs entry_facts)
  have none: "\<forall>i < length ?evs. \<exists>found.
      outcome (avenues ''gpt-5.3-codex'' ! i) (?evs ! i) = Inr found \<and> \<not> hasCompleteTokenPricing found"
    by (simp add: less_Suc_eq nth_Cons' data_defs entry_facts)
  from not_found_names_requested_model [OF run none] run show ?thesis by simp
qed

subsection \<open>Accessor failures\<close>

text \<open>
  C6. When any accessor call made during \<open>getPricing\<close> fails with an error, this call
  is the last one made, and \<open>getPricing\<close> throws that very error value.
\<close>

theorem accessor_failure_propagates:
  assumes run: "getPricing (traced fetcher) model (s, []) = (r, (s', evs))"
    and i: "i < length evs"
    and failed: "failure_of (evs ! i) = Some err"
  shows "r = Inl (FetcherError err) \<and> Suc i = length evs
    \<and> getPricing fetcher model s = (Inl (FetcherError err), s')"
proof -
  from run obtain q where l: "getPricing_lookup (traced fetcher) model (s, []) = (q, (s', evs))"
    and r: "r = (case q of
                Inl x \<Rightarrow> Inl x
              | Inr p \<Rightarrow>
                  (if hasCompleteTokenPricing p then Inr (toModelPricing (the p))
                   else Inl (Error (''Pricing not found for model '' @ model))))"
    by (rule getPricing_traced_lookup)
  from l i failed have "r = Inl (FetcherError err) \<and> Suc i = length evs"
    by (cases rule: lookup_traced_paths) (auto simp: r less_Suc_eq nth_Cons' split: if_splits)
  with getPricing_traced_agrees [OF run] show ?thesis by simp
qed

theorem accessor_failure_propagates_witness:
  "getPricing (traced (catalogFetcher limits_catalog neverMatches failSecondCall)) ''gpt-5.3-codex'' (0, [])
     = (Inl (FetcherError ''catalog retrieval failed''),
        (2, [FetchedAll (Inr limits_catalog), FetchedAll (Inl ''catalog retrieval failed'')]))
   \<and> getPricing (catalogFetcher limits_catalog neverMatches failSecondCall) ''gpt-5.3-codex'' 0
     = (Inl (FetcherError ''catalog retrieval failed''), 2)"
proof -
  let ?evs = "[FetchedAll (Inr limits_catalog), FetchedAll (Inl ''catalog retrieval failed'')]"
  have run: "getPricing (traced (catalogFetcher limits_catalog neverMatches failSecondCall)) ''gpt-5.3-codex'' (0, [])
     = (Inl (FetcherError ''catalog retrieval failed''), (2, ?evs))"
    by (simp add: getPricing_after_lookup getPricing_lookup_def await_def resolved_def
          strict_traced relaxed_traced data_defs entry_facts)
  have i: "1 < length ?evs" by simp
  have failed: "failure_of (?evs ! 1) = Some ''catalog retrieval failed''" by simp
  from accessor_failure_propagates [OF run i failed] run show ?thesis by simp
qed

subsection \<open>One entry per result\<close>

text \<open>
  C9. A record returned by \<open>getPricing\<close> is computed from one entry: the complete
  entry that the last attempted avenue yielded from the accessor's last response. Its
  input cost is that entry's input cost times \<open>MILLION\<close>, its output cost that entry's
  output cost times \<open>MILLION\<close>, and its cached-input cost that entry's cache-read cost,
  or else that entry's input cost, times \<open>MILLION\<close>. Entries seen at earlier steps
  contribute nothing.
\<close>

theorem result_from_one_entry:
  assumes run: "getPricing (traced fetcher) model (s, []) = (Inr result, (s', evs))"
  shows "evs \<noteq> [] \<and> (\<exists>entry i out.
      outcome (avenues model ! (length evs - 1)) (last evs) = Inr (Some entry)
    \<and> hasCompleteTokenPricing (Some entry)
    \<and> input_cost_per_token entry = Some i
    \<and> output_cost_per_token entry = Some out
    \<and> result =
        \<lparr> inputCostPerMToken = jsMul i MILLION,
          cachedInputCostPerMToken =
            jsMul (case cache_read_input_token_cost entry of Some c \<Rightarrow> c | None \<Rightarrow> i) MILLION,
          outputCostPerMToken = jsMul out MILLION \<rparr>
    \<and> getPricing fetcher model s = (Inr result, s'))"
proof -
  from run obtain q where l: "getPricing_lookup (traced fetcher) model (s, []) = (q, (s', evs))"
    and r: "Inr result = (case q of
                Inl x \<Rightarrow> Inl x
              | Inr p \<Rightarrow>
                  (if hasCompleteTokenPricing p then Inr (toModelPricing (the p))
                   else Inl (Error (''Pricing not found for model '' @ model))))"
    by (rule getPricing_traced_lookup)
  from r obtain entry where q: "q = Inr (Some entry)" and c: "hasCompleteTokenPricing (Some entry)"
    and res: "result = toModelPricing entry"
    by (cases q) (auto split: if_splits dest: complete_is_Some)
  from c obtain i out where io: "input_cost_per_token entry = Some i"
      "output_cost_per_token entry = Some out"
    and fields: "toModelPricing entry =
        \<lparr> inputCostPerMToken = jsMul i MILLION,
          cachedInputCostPerMToken =
            jsMul (case cache_read_input_token_cost entry of Some c \<Rightarrow> c | None \<Rightarrow> i) MILLION,
          outputCostPerMToken = jsMul out MILLION \<rparr>"
    using complete_prices by blast
  from l q c have "evs \<noteq> [] \<and> outcome (avenues model ! (length evs - 1)) (last evs) = Inr (Some entry)"
    by (cases rule: lookup_traced_paths) (auto simp: avenues_def split: if_splits)
  with c res io fields getPricing_traced_agrees [OF run] show ?thesis by auto
qed

theorem result_from_one_entry_witness:
  "getPricing (traced (catalogFetcher split_fields_catalog neverMatches noFailure)) ''gpt-5.3-codex'' (0, [])
     = (Inr \<lparr> inputCostPerMToken = nearest False 3 2, cachedInputCostPerMToken = nearest False 3 2,
              outputCostPerMToken = nearest False 12 1 \<rparr>,
        (2, [FetchedAll (Inr split_fields_catalog), FetchedAll (Inr split_fields_catalog)]))
   \<and> split_fields_catalog ''gpt-5.3-codex'' = Some cache_only_entry
   \<and> cache_read_input_token_cost cache_only_entry = Some (nearest False 9 10000000)
   \<and> outcome (avenues ''gpt-5.3-codex'' ! 1) (FetchedAll (Inr split_fields_catalog) :: string event)
     = Inr (Some no_cache_entry)
   \<and> input_cost_per_token no_cache_entry = Some (nearest False 15 10000000)
   \<and> output_cost_per_token no_cache_entry = Some (nearest False 12 1000000)
   \<and> cache_read_input_token_cost no_cache_entry = None
   \<and> jsMul (nearest False 15 10000000) MILLION = nearest False 3 2
   \<and> jsMul (nearest False 12 1000000) MILLION = nearest False 12 1"
proof -
  let ?evs = "[FetchedAll (Inr split_fields_catalog), FetchedAll (Inr split_fields_catalog)] :: string event list"
  let ?r = "\<lparr> inputCostPerMToken = nearest False 3 2, cachedInputCostPerMToken = nearest False 3 2,
              outputCostPerMToken = nearest False 12 1 \<rparr>"
  have run: "getPricing (traced (catalogFetcher split_fields_catalog neverMatches noFailure)) ''gpt-5.3-codex'' (0, [])
     = (Inr ?r, (2, ?evs))"
    by (simp add: getPricing_after_lookup getPricing_lookup_def await_def resolved_def
          strict_traced relaxed_traced data_defs entry_facts)
  have last: "outcome (avenues ''gpt-5.3-codex'' ! (length ?evs - 1)) (last ?evs) = Inr (Some no_cache_entry)"
    by (simp add: data_defs)
  have fields: "input_cost_per_token no_cache_entry = Some (nearest False 15 10000000)"
    "output_cost_per_token no_cache_entry = Some (nearest False 12 1000000)"
    "cache_read_input_token_cost no_cache_entry = None"
    by (simp_all add: no_cache_entry_def noFields_def)
  from result_from_one_entry [OF run] last fields
  have products: "jsMul (nearest False 15 10000000) MILLION = nearest False 3 2"
    "jsMul (nearest False 12 1000000) MILLION = nearest False 12 1"
    by auto
  have direct: "split_fields_catalog ''gpt-5.3-codex'' = Some cache_only_entry"
    "cache_read_input_token_cost cache_only_entry = Some (nearest False 9 10000000)"
    by (simp_all add: split_fields_catalog_def cache_only_entry_def noFields_def)
  from last have "outcome (avenues ''gpt-5.3-codex'' ! 1) (FetchedAll (Inr split_fields_catalog) :: string event)
     = Inr (Some no_cache_entry)"
    by simp
  with run fields products direct show ?thesis by blast
qed

end
